theory Spec2Isabelle
  imports Complex_Main "HOL-Library.Word"
begin

section \<open>Pointer input: \<open>mouse_button_callback\<close> and \<open>mouse_callback\<close> (main.cpp)\<close>

text \<open>
  The handlers keep their state in file-scope and function-scope statics: \<open>dragging\<close>,
  \<open>last_x\<close>, \<open>last_y\<close>, \<open>first_mouse\<close>, \<open>yaw\<close>, \<open>pitch\<close>, the flag
  \<open>app.viewport_hovered\<close> written by the UI pass, and \<open>camera.transform\<close>. They are the
  fields of one record that every handler takes and returns.

  A finite \<open>float\<close> or \<open>double\<close> is the real number it denotes. Every arithmetic result is
  rounded: \<open>rd\<close> rounds to \<open>double\<close>, \<open>rf\<close> converts to \<open>float\<close>; both are parameters, so
  nothing below depends on how rounding is done. The handler's comparisons are exact.
  Infinities and NaN are left out: cursor positions are finite.
  The \<open>glm\<close> calls that rebuild the transform (\<open>decompose\<close>, \<open>quat\<close>, \<open>mat4_cast\<close>,
  \<open>translate\<close>, \<open>scale\<close>) are library code; their composition is the parameter \<open>orient\<close>,
  applied to the old transform, the pitch and the yaw (in degrees).
\<close>

record 't input_state =
  last_x :: real
  last_y :: real
  first_mouse :: bool
  yaw :: real
  pitch :: real
  dragging :: bool
  viewport_hovered :: bool
  transform :: 't

definition WINDOW_WIDTH :: int where "WINDOW_WIDTH = 1000"
definition WINDOW_HEIGHT :: int where "WINDOW_HEIGHT = 1000"

text \<open>The value of the literal \<open>0.1f\<close>: the \<open>float\<close> nearest to one tenth.\<close>

definition sensitivity :: real where
  "sensitivity = 13421773 / 134217728"

definition initial_input_state :: "'t \<Rightarrow> 't input_state" where
  "initial_input_state t =
     \<lparr> last_x = real_of_int WINDOW_WIDTH / 2, last_y = real_of_int WINDOW_HEIGHT / 2,
       first_mouse = True, yaw = 0, pitch = 0, dragging = False,
       viewport_hovered = False, transform = t \<rparr>"

text \<open>Lines 247 to 251: the two tests on \<open>pitch\<close>, in the source's order.\<close>

definition clamp_pitch :: "real \<Rightarrow> real" where
  "clamp_pitch p =
     (let p1 = (if p > 89 then 89 else p)
      in if p1 < - 89 then - 89 else p1)"

definition mouse_callback ::
  "(real \<Rightarrow> real) \<Rightarrow> (real \<Rightarrow> real) \<Rightarrow> ('t \<Rightarrow> real \<Rightarrow> real \<Rightarrow> 't) \<Rightarrow>
   't input_state \<Rightarrow> real \<Rightarrow> real \<Rightarrow> 't input_state" where
  "mouse_callback rd rf orient s xpos ypos =
     (let lx = (if first_mouse s then xpos else last_x s);
          ly = (if first_mouse s then ypos else last_y s);
          xoffset = rd (lx - xpos);
          yoffset = rd (ly - ypos);
          s1 = s\<lparr> last_x := xpos, last_y := ypos, first_mouse := False \<rparr>;
          xoffset' = rd (xoffset * sensitivity);
          yoffset' = rd (yoffset * sensitivity)
      in if dragging s then
           (let yaw' = rf (rd (yaw s + xoffset'));
                pitch' = clamp_pitch (rf (rd (pitch s + yoffset')))
            in s1\<lparr> yaw := yaw', pitch := pitch',
                   transform := orient (transform s) pitch' yaw' \<rparr>)
         else s1)"

definition GLFW_MOUSE_BUTTON_LEFT :: int where "GLFW_MOUSE_BUTTON_LEFT = 0"
definition GLFW_RELEASE :: int where "GLFW_RELEASE = 0"
definition GLFW_PRESS :: int where "GLFW_PRESS = 1"

definition mouse_button_callback :: "'t input_state \<Rightarrow> int \<Rightarrow> int \<Rightarrow> 't input_state" where
  "mouse_button_callback s button action =
     (if button = GLFW_MOUSE_BUTTON_LEFT \<and> action = GLFW_PRESS \<and> viewport_hovered s
        then s\<lparr> dragging := True \<rparr>
      else if (button = GLFW_MOUSE_BUTTON_LEFT \<and> action = GLFW_RELEASE) \<or> \<not> viewport_hovered s
        then s\<lparr> dragging := False \<rparr>
      else s)"

text \<open>
  What reaches the handlers: a cursor position, a button event, or the UI pass storing
  whether the viewport is hovered (line 582).
\<close>

datatype input_event = CursorPos real real | MouseButton int int | Hovered bool

fun handle_event ::
  "(real \<Rightarrow> real) \<Rightarrow> (real \<Rightarrow> real) \<Rightarrow> ('t \<Rightarrow> real \<Rightarrow> real \<Rightarrow> 't) \<Rightarrow>
   't input_state \<Rightarrow> input_event \<Rightarrow> 't input_state" where
  "handle_event rd rf orient s (CursorPos x y) = mouse_callback rd rf orient s x y"
| "handle_event rd rf orient s (MouseButton b a) = mouse_button_callback s b a"
| "handle_event rd rf orient s (Hovered h) = s\<lparr> viewport_hovered := h \<rparr>"

definition handle_events ::
  "(real \<Rightarrow> real) \<Rightarrow> (real \<Rightarrow> real) \<Rightarrow> ('t \<Rightarrow> real \<Rightarrow> real \<Rightarrow> 't) \<Rightarrow>
   't input_state \<Rightarrow> input_event list \<Rightarrow> 't input_state" where
  "handle_events rd rf orient s evs = foldl (handle_event rd rf orient) s evs"


section \<open>Calls into OpenGL, the C library and the logger\<close>

text \<open>
  The program acts on the outside world through calls whose results it never reads back
  (except for generated names and the framebuffer status, which are inputs of the function
  that asks for them). A function's effect is the list of calls it makes, in order.
  Texture targets are always \<open>GL_TEXTURE_2D\<close> and are left out. \<open>'d\<close> is what a pixel
  pointer points to (\<open>None\<close> is the null pointer), \<open>'m\<close> a \<open>glm::mat4\<close>, \<open>'v\<close> a
  \<open>glm::vec3\<close>.
\<close>

datatype gl_format = GL_RGBA32F | GL_RGB16F | GL_R32UI | GL_DEPTH_COMPONENT
datatype gl_pname = GL_TEXTURE_MIN_FILTER | GL_TEXTURE_MAG_FILTER
datatype gl_filter = GL_NEAREST | GL_LINEAR
datatype gl_attachment =
  GL_COLOR_ATTACHMENT0 | GL_COLOR_ATTACHMENT1 | GL_COLOR_ATTACHMENT2 | GL_DEPTH_ATTACHMENT

datatype printf_arg = ArgNat nat | ArgInt int | ArgStr string

datatype ('d, 'm, 'v) call =
    GenTextures nat
  | GenFramebuffers nat
  | BindTexture nat
  | TexImage2D gl_format int int "'d option"
  | TexParameteri gl_pname gl_filter
  | BindFramebuffer nat
  | FramebufferTexture2D gl_attachment nat
  | DrawBuffers "gl_attachment list"
  | ClearColor
  | Clear
  | UseProgram nat
  | SetMat4 nat string 'm
  | SetUint nat string nat
  | SetVec3 nat string 'v
  | BindVertexArray nat
  | DrawElements nat
  | ActiveTexture nat
  | BindImageTexture nat nat
  | DispatchCompute nat nat nat
  | Free "'d option"
  | Printf string "printf_arg list"
  | FprintfStderr string "printf_arg list"
  | LogError string "printf_arg list"
  | LogInfo string "printf_arg list"
  | FreeEXRErrorMessage string
  | CheckFramebufferStatus

text \<open>
  Undefined behaviour of the C++ source is a result of its own, and so is an exception that
  nothing catches: \<open>std::filesystem::filesystem_error\<close> leaves \<open>load_model\<close> and \<open>main\<close>.
\<close>

datatype error = OutOfRange | SignedOverflow | FilesystemError

definition RENDER_WIDTH :: nat where "RENDER_WIDTH = 1000"
definition RENDER_HEIGHT :: nat where "RENDER_HEIGHT = 1000"

text \<open>
  An argument of type \<open>size_t\<close> passed for a \<open>GLsizei\<close> (a 32-bit \<open>int\<close>) parameter: the
  value is reduced modulo \<open>2^32\<close> and read as two's complement.
\<close>

definition size_t_mul :: "nat \<Rightarrow> nat \<Rightarrow> nat" where
  "size_t_mul a b = (a * b) mod 2 ^ 64"

definition to_GLsizei :: "nat \<Rightarrow> int" where
  "to_GLsizei n = sint (word_of_nat n :: 32 word)"

record pt_info =
  materials_texture :: nat
  environment_map :: nat
  render_target :: nat


section \<open>The material packer: \<open>allocate_pt_materials\<close> (main.cpp, lines 390 to 415)\<close>

text \<open>
  \<open>'f\<close> is the type \<open>float\<close>. The packer copies floats and supplies the constant \<open>1.0f\<close>,
  written \<open>1\<close>; it does no arithmetic on them.
\<close>

datatype 'f vec3 = Vec3 'f 'f 'f
datatype 'f vec4 = Vec4 'f 'f 'f 'f

text \<open>The constructors \<open>glm::vec4 {v, w}\<close> of a \<open>vec3\<close> and a scalar, and \<open>glm::vec4 {s}\<close>.\<close>

fun vec4_of_vec3 :: "'f vec3 \<Rightarrow> 'f \<Rightarrow> 'f vec4" where
  "vec4_of_vec3 (Vec3 a b c) w = Vec4 a b c w"

definition vec4_of_scalar :: "'f \<Rightarrow> 'f vec4" where
  "vec4_of_scalar s = Vec4 s s s s"

text \<open>
  Modelled from the spec: \<open>Material\<close> is declared in \<open>mesh.hpp\<close>, which is not among the
  sources. The packer reads three colour triples and a scalar roughness; any further
  field is in the record's extension.
\<close>

record 'f Material =
  diffuse :: "'f vec3"
  specular :: "'f vec3"
  emission :: "'f vec3"
  roughness :: 'f

record 'f CompressedMaterial =
  diffuse :: "'f vec4"
  specular :: "'f vec4"
  emission :: "'f vec4"
  roughness :: "'f vec4"

text \<open>The first three components of a \<open>vec4\<close>.\<close>

fun xyz :: "'f vec4 \<Rightarrow> 'f vec3" where
  "xyz (Vec4 a b c d) = Vec3 a b c"

definition sizeof_vec4 :: nat where "sizeof_vec4 = 16"
definition sizeof_CompressedMaterial :: nat where "sizeof_CompressedMaterial = 64"

definition stride :: nat where
  "stride = sizeof_CompressedMaterial div sizeof_vec4"

text \<open>The body of the loop at lines 397 to 406.\<close>

definition compress :: "('f::one) Material \<Rightarrow> 'f CompressedMaterial" where
  "compress material =
     \<lparr> diffuse = vec4_of_vec3 (Material.diffuse material) 1,
       specular = vec4_of_vec3 (Material.specular material) 1,
       emission = vec4_of_vec3 (Material.emission material) 1,
       roughness = vec4_of_scalar (Material.roughness material) \<rparr>"

fun compress_all ::
  "('f::one) Material list \<Rightarrow> 'f CompressedMaterial list \<Rightarrow> 'f CompressedMaterial list" where
  "compress_all [] materials = materials"
| "compress_all (material # rest) materials = compress_all rest (materials @ [compress material])"

text \<open>
  What \<open>materials.data()\<close> points to, read as RGBA float texels: the four fields of each
  record, in declaration order, one record after the other.
\<close>

definition texels_of :: "'f CompressedMaterial \<Rightarrow> 'f vec4 list" where
  "texels_of c = [diffuse c, specular c, emission c, roughness c]"

definition texels :: "'f CompressedMaterial list \<Rightarrow> 'f vec4 list" where
  "texels materials = concat (map texels_of materials)"

definition upload_width :: "'f CompressedMaterial list \<Rightarrow> int" where
  "upload_width materials = to_GLsizei (size_t_mul stride (length materials))"

text \<open>
  \<open>materials.data()\<close>: the vector's storage. A vector that never held an element has none,
  and \<open>data()\<close> is then the null pointer.
\<close>

definition data_of :: "'f CompressedMaterial list \<Rightarrow> 'f vec4 list option" where
  "data_of materials = (if materials = [] then None else Some (texels materials))"

definition allocate_pt_materials ::
  "('f::one) Material list \<Rightarrow> nat \<Rightarrow> pt_info \<Rightarrow> pt_info \<times> ('f vec4 list, 'm, 'v) call list" where
  "allocate_pt_materials all name pt =
     (let materials = compress_all all []
      in (pt\<lparr> materials_texture := name \<rparr>,
          [ Printf ''Allocating %lu materials for path tracer\<newline>'' [ArgNat (length all)],
            GenTextures name,
            BindTexture name,
            TexImage2D GL_RGBA32F (upload_width materials) 1 (data_of materials),
            TexParameteri GL_TEXTURE_MIN_FILTER GL_NEAREST,
            TexParameteri GL_TEXTURE_MAG_FILTER GL_NEAREST,
            BindTexture 0 ]))"


section \<open>G-buffer allocation: \<open>allocate_gl_framebuffer\<close> (main.cpp, lines 324 to 388)\<close>

record Framebuffer =
  framebuffer :: nat
  g_position :: nat
  g_normal :: nat
  g_material_index :: nat

definition GL_FRAMEBUFFER_COMPLETE :: nat where
  "GL_FRAMEBUFFER_COMPLETE = 36053"

text \<open>
  The names that \<open>glGenFramebuffers\<close> and \<open>glGenTextures\<close> hand out and the value that
  \<open>glCheckFramebufferStatus\<close> returns are inputs. \<open>return {}\<close> is the value-initialised
  struct: every field zero.
\<close>

definition allocate_gl_framebuffer ::
  "nat \<Rightarrow> nat \<Rightarrow> nat \<Rightarrow> nat \<Rightarrow> nat \<Rightarrow> nat \<Rightarrow> Framebuffer \<times> ('d, 'm, 'v) call list" where
  "allocate_gl_framebuffer g_buffer g_position' g_normal' g_material_index' g_depth status =
     (let built =
        [ GenFramebuffers g_buffer,
          GenTextures g_position', BindTexture g_position',
          TexImage2D GL_RGB16F (int RENDER_WIDTH) (int RENDER_HEIGHT) None,
          TexParameteri GL_TEXTURE_MIN_FILTER GL_NEAREST,
          TexParameteri GL_TEXTURE_MAG_FILTER GL_NEAREST,
          GenTextures g_normal', BindTexture g_normal',
          TexImage2D GL_RGB16F (int RENDER_WIDTH) (int RENDER_HEIGHT) None,
          TexParameteri GL_TEXTURE_MIN_FILTER GL_NEAREST,
          TexParameteri GL_TEXTURE_MAG_FILTER GL_NEAREST,
          GenTextures g_material_index', BindTexture g_material_index',
          TexImage2D GL_R32UI (int RENDER_WIDTH) (int RENDER_HEIGHT) None,
          TexParameteri GL_TEXTURE_MIN_FILTER GL_NEAREST,
          TexParameteri GL_TEXTURE_MAG_FILTER GL_NEAREST,
          BindFramebuffer g_buffer,
          FramebufferTexture2D GL_COLOR_ATTACHMENT0 g_position',
          FramebufferTexture2D GL_COLOR_ATTACHMENT1 g_normal',
          FramebufferTexture2D GL_COLOR_ATTACHMENT2 g_material_index',
          DrawBuffers [GL_COLOR_ATTACHMENT0, GL_COLOR_ATTACHMENT1, GL_COLOR_ATTACHMENT2],
          GenTextures g_depth, BindTexture g_depth,
          TexImage2D GL_DEPTH_COMPONENT (int RENDER_WIDTH) (int RENDER_HEIGHT) None,
          FramebufferTexture2D GL_DEPTH_ATTACHMENT g_depth,
          CheckFramebufferStatus ]
      in if status \<noteq> GL_FRAMEBUFFER_COMPLETE
         then (\<lparr> framebuffer = 0, g_position = 0, g_normal = 0, g_material_index = 0 \<rparr>,
               built @ [FprintfStderr ''Framebuffer is not complete!\<newline>'' []])
         else (\<lparr> framebuffer = g_buffer, g_position = g_position', g_normal = g_normal',
                 g_material_index = g_material_index' \<rparr>,
               built @ [BindFramebuffer 0]))"

text \<open>The render target that \<open>main\<close> allocates for the compute shader (lines 135 to 140).\<close>

definition allocate_render_target :: "nat \<Rightarrow> pt_info \<Rightarrow> pt_info \<times> ('d, 'm, 'v) call list" where
  "allocate_render_target name pt =
     (pt\<lparr> render_target := name \<rparr>,
      [ GenTextures name, BindTexture name,
        TexImage2D GL_RGBA32F (int RENDER_WIDTH) (int RENDER_HEIGHT) None,
        TexParameteri GL_TEXTURE_MIN_FILTER GL_NEAREST,
        TexParameteri GL_TEXTURE_MAG_FILTER GL_NEAREST ])"


section \<open>The environment loader: \<open>exr_loader\<close> and the future (main.cpp, lines 149 to 168)\<close>

text \<open>
  The loader's result is the tuple \<open>(data, width, height)\<close>; \<open>None\<close> is the null pointer.
  What \<open>LoadEXR\<close> returns and writes through its pointer arguments is the input: the
  return code, the data pointer, the two dimensions and the error message.
\<close>

type_synonym 'd exr_result = "'d option \<times> int \<times> int"

definition exr_loader ::
  "int \<times> 'd option \<times> int \<times> int \<times> string \<Rightarrow> 'd exr_result \<times> ('d, 'm, 'v) call list" where
  "exr_loader loaded =
     (case loaded of (ret, data, width, height, err) \<Rightarrow>
        if ret \<noteq> 0
        then ((None, 0, 0),
              [LogError ''Error loading EXR: %s'' [ArgStr err], FreeEXRErrorMessage err])
        else ((data, width, height),
              [LogInfo ''Loaded EXR: %d x %d'' [ArgInt width, ArgInt height]]))"

text \<open>
  A \<open>std::future\<close> as the render thread sees it: without shared state (\<open>valid()\<close> is
  false), with a result that is not there yet, or with the result. \<open>get()\<close> returns
  the result and leaves the future without shared state.
\<close>

datatype 'r future = Invalid | Pending | Ready 'r


section \<open>The frame: \<open>render_pt_pipeline\<close> (main.cpp, lines 417 to 507)\<close>

text \<open>
  Modelled from the spec: \<open>GLBuffers\<close> is declared in \<open>gl.hpp\<close>, which is not among the
  sources: the buffer names of one submesh, its index count, and \<open>source\<close>, a pointer to
  the submesh. The frame reads \<open>source->material_index\<close> only, so the field holds that
  value.
\<close>

record GLBuffers =
  vao :: nat
  vbo :: nat
  ebo :: nat
  count :: nat
  source_material_index :: nat

text \<open>
  The matrices and vectors that the frame hands to the shaders come from \<open>Aperature\<close>
  (\<open>aperature.hpp\<close>, not among the sources) and \<open>glm\<close>, applied to the camera. The frame
  only passes them on, so they are inputs.
\<close>

record ('m, 'v) camera_uniforms =
  model :: 'm
  view :: 'm
  projection :: 'm
  camera_position :: 'v
  axis_u :: 'v
  axis_v :: 'v
  axis_w :: 'v

text \<open>
  Lines 466 to 494. \<open>name\<close> is the texture name that \<open>glGenTextures\<close> would hand out in
  this frame.
\<close>

definition environment_map_loading ::
  "nat \<Rightarrow> 'd exr_result future \<Rightarrow> pt_info \<Rightarrow>
   'd exr_result future \<times> pt_info \<times> ('d, 'm, 'v) call list" where
  "environment_map_loading name future pt =
     (case future of
        Invalid \<Rightarrow> (Invalid, pt, [ActiveTexture 5, BindTexture (environment_map pt)])
      | Pending \<Rightarrow> (Pending, pt, [ActiveTexture 5, BindTexture 0])
      | Ready result \<Rightarrow>
          (case result of (data, width, height) \<Rightarrow>
             (Invalid, pt\<lparr> environment_map := name \<rparr>,
              [ Printf ''Creating environment map texture\<newline>'' [],
                GenTextures name,
                BindTexture name,
                TexImage2D GL_RGBA32F width height data,
                TexParameteri GL_TEXTURE_MIN_FILTER GL_LINEAR,
                TexParameteri GL_TEXTURE_MAG_FILTER GL_LINEAR,
                Free data,
                BindTexture 0,
                ActiveTexture 5, BindTexture 0 ])))"

text \<open>The body of the loop at lines 442 to 448.\<close>

definition draw :: "nat \<Rightarrow> GLBuffers \<Rightarrow> ('d, 'm, 'v) call list" where
  "draw shader_program buffer =
     [ SetUint shader_program ''material_index'' (source_material_index buffer),
       BindVertexArray (vao buffer),
       DrawElements (count buffer) ]"

text \<open>
  Lines 419 to 448, the G-buffer pass. Line 441 reads \<open>buffers[0]\<close> before the loop. On
  an empty vector that is a read out of range, undefined behaviour in C++: the result
  \<open>OutOfRange\<close>.
\<close>

definition gbuffer_pass ::
  "('m, 'v) camera_uniforms \<Rightarrow> Framebuffer \<Rightarrow> GLBuffers list \<Rightarrow> nat \<Rightarrow>
   error + ('d, 'm, 'v) call list" where
  "gbuffer_pass camera fb buffers shader_program =
     (case buffers of
        [] \<Rightarrow> Inl OutOfRange
      | first # _ \<Rightarrow>
          Inr ([ BindFramebuffer (framebuffer fb), ClearColor, Clear,
                 UseProgram shader_program,
                 SetMat4 shader_program ''model'' (model camera),
                 SetMat4 shader_program ''view'' (view camera),
                 SetMat4 shader_program ''projection'' (projection camera),
                 BindVertexArray (vao first) ]
               @ concat (map (draw shader_program) buffers)))"

text \<open>Lines 450 to 464: the compute program and its input textures.\<close>

definition bind_inputs :: "Framebuffer \<Rightarrow> nat \<Rightarrow> pt_info \<Rightarrow> ('d, 'm, 'v) call list" where
  "bind_inputs fb path_tracer_program pt =
     [ UseProgram path_tracer_program,
       ActiveTexture 1, BindTexture (g_position fb),
       ActiveTexture 2, BindTexture (g_normal fb),
       ActiveTexture 4, BindTexture (g_material_index fb),
       ActiveTexture 3, BindTexture (materials_texture pt) ]"

text \<open>Lines 496 to 506: the render target, the camera's uniforms, the dispatch.\<close>

definition path_trace_dispatch ::
  "('m, 'v) camera_uniforms \<Rightarrow> nat \<Rightarrow> pt_info \<Rightarrow> ('d, 'm, 'v) call list" where
  "path_trace_dispatch camera path_tracer_program pt =
     [ BindImageTexture 0 (render_target pt),
       SetVec3 path_tracer_program ''camera.position'' (camera_position camera),
       SetVec3 path_tracer_program ''camera.axis_u'' (axis_u camera),
       SetVec3 path_tracer_program ''camera.axis_v'' (axis_v camera),
       SetVec3 path_tracer_program ''camera.axis_w'' (axis_w camera),
       DispatchCompute RENDER_WIDTH RENDER_HEIGHT 1 ]"

text \<open>
  The whole function. The textures are bound from the \<open>pt\<close> of before the loading step
  (line 464), the render target from the one after it; the step leaves those fields as
  they are.
\<close>

definition render_pt_pipeline ::
  "('m, 'v) camera_uniforms \<Rightarrow> nat \<Rightarrow> 'd exr_result future \<Rightarrow> Framebuffer \<Rightarrow>
   GLBuffers list \<Rightarrow> nat \<Rightarrow> nat \<Rightarrow> pt_info \<Rightarrow>
   error + ('d exr_result future \<times> pt_info \<times> ('d, 'm, 'v) call list)" where
  "render_pt_pipeline camera name future fb buffers shader_program path_tracer_program pt =
     (case gbuffer_pass camera fb buffers shader_program of
        Inl e \<Rightarrow> Inl e
      | Inr drawn \<Rightarrow>
          (case environment_map_loading name future pt of (future', pt', loading) \<Rightarrow>
             Inr (future', pt',
                  drawn @ bind_inputs fb path_tracer_program pt @ loading
                  @ path_trace_dispatch camera path_tracer_program pt')))"


section \<open>The frame loop of \<open>main\<close> (main.cpp, lines 168 to 203)\<close>

text \<open>
  One entry per iteration of the loop, which runs until the window is closed. An entry
  holds what the iteration takes from outside: whether the background task has finished by
  the time the frame polls, the texture name that \<open>glGenTextures\<close> would hand out, and
  the camera's uniforms (the keyboard and the UI pass act on the camera only). The future
  starts \<open>Pending\<close> at line 168; \<open>result\<close> is what the loader returns.
\<close>

record ('m, 'v) frame_input =
  task_finished :: bool
  texture_name :: nat
  uniforms :: "('m, 'v) camera_uniforms"

text \<open>
  The GL calls that \<open>render_ui_pipeline\<close> makes itself (lines 514 to 516); what follows
  them there is the UI library's.
\<close>

definition render_ui_pipeline :: "('d, 'm, 'v) call list" where
  "render_ui_pipeline = [BindFramebuffer 0, ClearColor, Clear]"

definition observe :: "'r \<Rightarrow> bool \<Rightarrow> 'r future \<Rightarrow> 'r future" where
  "observe result finished future =
     (if future = Pending \<and> finished then Ready result else future)"

fun main_loop ::
  "'d exr_result \<Rightarrow> Framebuffer \<Rightarrow> GLBuffers list \<Rightarrow> nat \<Rightarrow> nat \<Rightarrow>
   ('m, 'v) frame_input list \<Rightarrow> 'd exr_result future \<times> pt_info \<Rightarrow>
   error + (('d exr_result future \<times> pt_info) \<times> ('d, 'm, 'v) call list)" where
  "main_loop result fb buffers shader_program path_tracer_program [] state = Inr (state, [])"
| "main_loop result fb buffers shader_program path_tracer_program (frame # frames) state =
     (case render_pt_pipeline (uniforms frame) (texture_name frame)
             (observe result (task_finished frame) (fst state)) fb buffers
             shader_program path_tracer_program (snd state) of
        Inl e \<Rightarrow> Inl e
      | Inr (future', pt', calls) \<Rightarrow>
          (case main_loop result fb buffers shader_program path_tracer_program frames
                  (future', pt') of
             Inl e \<Rightarrow> Inl e
           | Inr (state', calls') \<Rightarrow> Inr (state', calls @ render_ui_pipeline @ calls')))"

text \<open>Which calls upload an image, release a buffer, dispatch the compute shader, draw.\<close>

fun is_upload :: "('d, 'm, 'v) call \<Rightarrow> bool" where
  "is_upload (TexImage2D f w h d) = True"
| "is_upload c = False"

fun is_free :: "('d, 'm, 'v) call \<Rightarrow> bool" where
  "is_free (Free d) = True"
| "is_free c = False"

fun is_dispatch :: "('d, 'm, 'v) call \<Rightarrow> bool" where
  "is_dispatch (DispatchCompute x y z) = True"
| "is_dispatch c = False"

fun is_draw :: "('d, 'm, 'v) call \<Rightarrow> bool" where
  "is_draw (DrawElements n) = True"
| "is_draw c = False"


section \<open>The model loader: \<open>load_model\<close> (mesh.cpp, lines 80 to 296)\<close>

subsection \<open>What the OBJ parser hands over\<close>

text \<open>
  The types of \<open>tinyobjloader\<close>, a library outside the sources, as far as the loader reads
  them. An \<open>index_t\<close> names a position, a normal and a texture coordinate by their
  numbers; a negative number means that the face corner has none. The attribute arrays are
  flat arrays of floats. \<open>num_face_vertices\<close> holds each entry as the \<open>int\<close> that
  line 125 converts it to.
\<close>

record index_t =
  vertex_index :: int
  normal_index :: int
  texcoord_index :: int

record 'f attrib_t =
  vertices :: "'f list"
  normals :: "'f list"
  texcoords :: "'f list"

record mesh_t =
  indices :: "index_t list"
  num_face_vertices :: "int list"
  material_ids :: "int list"

record shape_t =
  shape_name :: string
  mesh :: mesh_t

record 'f ObjReader =
  Warning :: string
  GetAttrib :: "'f attrib_t"
  GetShapes :: "shape_t list"

subsection \<open>Vertices, submeshes, models\<close>

datatype 'f vec2 = Vec2 'f 'f

text \<open>
  Modelled from the spec: \<open>Vertex\<close>, \<open>Mesh\<close> and \<open>Model\<close> are declared in \<open>mesh.hpp\<close>,
  which is not among the sources. A vertex has a position, a normal and a UV pair; a
  submesh is built from a vertex list, an index list and a material; a model from its
  list of submeshes. Further members are in the records' extensions.
\<close>

record 'f Vertex =
  position :: "'f vec3"
  normal :: "'f vec3"
  uv :: "'f vec2"

record ('f, 'mat) Mesh =
  vertices :: "'f Vertex list"
  indices :: "nat list"
  material :: 'mat

record ('f, 'mat) Model =
  meshes :: "('f, 'mat) Mesh list"

text \<open>
  Float arithmetic and comparison belong to the hardware and to \<open>glm\<close>. The loader uses
  the subtraction of two floats, \<open>glm::cross\<close>, \<open>glm::normalize\<close> and the comparison
  \<open>==\<close> of two floats (which need not hold between a float and itself: a NaN differs from
  every float). They are parameters, together with the floats \<open>0.0f\<close> and \<open>1.0f\<close> and
  the default-constructed \<open>Material\<close>.
\<close>

record ('f, 'mat) float_ops =
  fsub :: "'f \<Rightarrow> 'f \<Rightarrow> 'f"
  cross :: "'f vec3 \<Rightarrow> 'f vec3 \<Rightarrow> 'f vec3"
  normalize :: "'f vec3 \<Rightarrow> 'f vec3"
  feq :: "'f \<Rightarrow> 'f \<Rightarrow> bool"
  zero_f :: 'f
  one_f :: 'f
  default_material :: 'mat

text \<open>\<open>glm\<close>'s componentwise difference and comparison of vectors.\<close>

fun vec3_sub :: "('f, 'mat) float_ops \<Rightarrow> 'f vec3 \<Rightarrow> 'f vec3 \<Rightarrow> 'f vec3" where
  "vec3_sub ops (Vec3 a b c) (Vec3 a' b' c') =
     Vec3 (fsub ops a a') (fsub ops b b') (fsub ops c c')"

fun vec3_eq :: "('f, 'mat) float_ops \<Rightarrow> 'f vec3 \<Rightarrow> 'f vec3 \<Rightarrow> bool" where
  "vec3_eq ops (Vec3 a b c) (Vec3 a' b' c') \<longleftrightarrow> feq ops a a' \<and> feq ops b b' \<and> feq ops c c'"

fun vec2_eq :: "('f, 'mat) float_ops \<Rightarrow> 'f vec2 \<Rightarrow> 'f vec2 \<Rightarrow> bool" where
  "vec2_eq ops (Vec2 a b) (Vec2 a' b') \<longleftrightarrow> feq ops a a' \<and> feq ops b b'"

text \<open>Lines 29 to 33: \<open>operator==\<close> on vertices.\<close>

definition vertex_eq :: "('f, 'mat) float_ops \<Rightarrow> 'f Vertex \<Rightarrow> 'f Vertex \<Rightarrow> bool" where
  "vertex_eq ops a b \<longleftrightarrow>
     vec3_eq ops (position a) (position b) \<and> vec3_eq ops (normal a) (normal b)
     \<and> vec2_eq ops (uv a) (uv b)"

subsection \<open>Reads and integer arithmetic that can go wrong\<close>

definition INT_MAX :: int where "INT_MAX = 2147483647"
definition INT_MIN :: int where "INT_MIN = - 2147483648"

text \<open>
  An \<open>int\<close> expression whose value leaves the range of \<open>int\<close> is undefined behaviour, and
  so is \<open>operator[]\<close> on a vector outside its bounds.
\<close>

definition checked :: "int \<Rightarrow> error + int" where
  "checked i = (if INT_MIN \<le> i \<and> i \<le> INT_MAX then Inr i else Inl SignedOverflow)"

definition read :: "'a list \<Rightarrow> int \<Rightarrow> error + 'a" where
  "read xs i =
     (case checked i of
        Inl e \<Rightarrow> Inl e
      | Inr i \<Rightarrow> if 0 \<le> i \<and> i < int (length xs) then Inr (xs ! nat i) else Inl OutOfRange)"

text \<open>Three consecutive floats, as at lines 139 to 143: entries \<open>3 * i\<close> to \<open>3 * i + 2\<close>.\<close>

definition read_vec3 :: "'f list \<Rightarrow> int \<Rightarrow> error + 'f vec3" where
  "read_vec3 xs i =
     (case read xs (3 * i + 0) of Inl e \<Rightarrow> Inl e | Inr a \<Rightarrow>
      case read xs (3 * i + 1) of Inl e \<Rightarrow> Inl e | Inr b \<Rightarrow>
      case read xs (3 * i + 2) of Inl e \<Rightarrow> Inl e | Inr c \<Rightarrow>
      Inr (Vec3 a b c))"

text \<open>A loop over a list whose body can fail: the first failure ends it.\<close>

fun for_each :: "('a \<Rightarrow> 's \<Rightarrow> error + 's) \<Rightarrow> 'a list \<Rightarrow> 's \<Rightarrow> error + 's" where
  "for_each body [] s = Inr s"
| "for_each body (x # xs) s =
     (case body x s of Inl e \<Rightarrow> Inl e | Inr s' \<Rightarrow> for_each body xs s')"

subsection \<open>The loops\<close>

text \<open>
  The locals of one pass over a shape (lines 116 to 122) and the list \<open>meshes\<close> of
  line 111. \<open>unique_vertices\<close> is searched with \<open>operator==\<close>, so it is the list of its
  entries in the order of insertion; \<open>index_map\<close> has keys of three integers.
\<close>

record ('f, 'mat) loader_state =
  cur_vertices :: "'f Vertex list"
  cur_indices :: "nat list"
  unique_vertices :: "('f Vertex \<times> nat) list"
  index_map :: "index_t \<rightharpoonup> nat"
  offset :: int
  submeshes :: "('f, 'mat) Mesh list"

text \<open>
  \<open>unique_vertices.count(vertex) > 0\<close> and \<open>unique_vertices[vertex]\<close> in one. The hash of
  a vertex (lines 37 to 75) is computed from \<open>std::hash<float>\<close> of its components, which
  gives equal floats equal hashes; so the search finds a stored key exactly when one
  compares equal to the probe.
\<close>

fun find_vertex ::
  "('f, 'mat) float_ops \<Rightarrow> 'f Vertex \<Rightarrow> ('f Vertex \<times> nat) list \<Rightarrow> nat option" where
  "find_vertex ops vertex [] = None"
| "find_vertex ops vertex ((key, ident) # rest) =
     (if vertex_eq ops key vertex then Some ident else find_vertex ops vertex rest)"

text \<open>Lines 145 to 178: the normal of the corner \<open>v\<close> of a face of \<open>fv\<close> corners.\<close>

definition corner_normal ::
  "('f, 'mat) float_ops \<Rightarrow> 'f attrib_t \<Rightarrow> mesh_t \<Rightarrow> int \<Rightarrow> int \<Rightarrow> int \<Rightarrow> index_t \<Rightarrow>
   'f vec3 \<Rightarrow> error + 'f vec3" where
  "corner_normal ops attrib m off fv v index pos =
     (if normal_index index \<ge> 0 then read_vec3 (normals attrib) (normal_index index)
      else
        case checked (v - 1 + fv) of Inl e \<Rightarrow> Inl e | Inr before \<Rightarrow>
        let pindex = before mod fv;
            nindex = (v + 1) mod fv
        in
        case read (mesh_t.indices m) (off + pindex) of Inl e \<Rightarrow> Inl e | Inr p \<Rightarrow>
        case read (mesh_t.indices m) (off + nindex) of Inl e \<Rightarrow> Inl e | Inr n \<Rightarrow>
        case read_vec3 (attrib_t.vertices attrib) (vertex_index p) of Inl e \<Rightarrow> Inl e | Inr vn \<Rightarrow>
        case read_vec3 (attrib_t.vertices attrib) (vertex_index n) of Inl e \<Rightarrow> Inl e | Inr vp \<Rightarrow>
        let e1 = vec3_sub ops vp pos;
            e2 = vec3_sub ops vn pos
        in Inr (normalize ops (cross ops e1 e2)))"

text \<open>Lines 180 to 187.\<close>

definition corner_uv :: "('f, 'mat) float_ops \<Rightarrow> 'f attrib_t \<Rightarrow> index_t \<Rightarrow> error + 'f vec2" where
  "corner_uv ops attrib index =
     (if texcoord_index index \<ge> 0 then
        case read (texcoords attrib) (2 * texcoord_index index + 0) of Inl e \<Rightarrow> Inl e | Inr s \<Rightarrow>
        case read (texcoords attrib) (2 * texcoord_index index + 1) of Inl e \<Rightarrow> Inl e | Inr t \<Rightarrow>
        Inr (Vec2 s (fsub ops (one_f ops) t))
      else Inr (Vec2 (zero_f ops) (zero_f ops)))"

text \<open>Lines 137 to 187: the vertex of a corner.\<close>

definition corner_vertex ::
  "('f, 'mat) float_ops \<Rightarrow> 'f attrib_t \<Rightarrow> mesh_t \<Rightarrow> int \<Rightarrow> int \<Rightarrow> int \<Rightarrow> index_t \<Rightarrow>
   error + 'f Vertex" where
  "corner_vertex ops attrib m off fv v index =
     (case read_vec3 (attrib_t.vertices attrib) (vertex_index index) of Inl e \<Rightarrow> Inl e | Inr pos \<Rightarrow>
      case corner_normal ops attrib m off fv v index pos of Inl e \<Rightarrow> Inl e | Inr nrm \<Rightarrow>
      case corner_uv ops attrib index of Inl e \<Rightarrow> Inl e | Inr tex \<Rightarrow>
      Inr \<lparr> position = pos, normal = nrm, uv = tex \<rparr>)"

text \<open>
  Lines 128 to 205, the body of the loop over the corners of a face. The identifier of a new
  vertex is \<open>vertices.size()\<close> stored in a \<open>uint32_t\<close>.
\<close>

definition corner_step ::
  "('f, 'mat) float_ops \<Rightarrow> 'f attrib_t \<Rightarrow> mesh_t \<Rightarrow> int \<Rightarrow> int \<Rightarrow>
   ('f, 'mat) loader_state \<Rightarrow> error + ('f, 'mat) loader_state" where
  "corner_step ops attrib m fv v s =
     (case read (mesh_t.indices m) (offset s + v) of Inl e \<Rightarrow> Inl e | Inr index \<Rightarrow>
      case index_map s index of
        Some ident \<Rightarrow> Inr (s\<lparr> cur_indices := cur_indices s @ [ident] \<rparr>)
      | None \<Rightarrow>
          (case corner_vertex ops attrib m (offset s) fv v index of Inl e \<Rightarrow> Inl e | Inr vertex \<Rightarrow>
           case find_vertex ops vertex (unique_vertices s) of
             Some ident \<Rightarrow>
               Inr (s\<lparr> index_map := (index_map s)(index \<mapsto> ident),
                       cur_indices := cur_indices s @ [ident] \<rparr>)
           | None \<Rightarrow>
               (let ident = length (cur_vertices s) mod 2 ^ 32
                in Inr (s\<lparr> unique_vertices := unique_vertices s @ [(vertex, ident)],
                           cur_vertices := cur_vertices s @ [vertex],
                           index_map := (index_map s)(index \<mapsto> ident),
                           cur_indices := cur_indices s @ [ident] \<rparr>))))"

text \<open>Lines 210 to 213: whether the submesh ends with face \<open>f\<close>.\<close>

definition submesh_ends :: "mesh_t \<Rightarrow> int \<Rightarrow> error + bool" where
  "submesh_ends m f =
     (if f = int (length (num_face_vertices m)) - 1 then Inr True
      else
        case read (material_ids m) f of Inl e \<Rightarrow> Inl e | Inr here \<Rightarrow>
        case read (material_ids m) (f + 1) of Inl e \<Rightarrow> Inl e | Inr there \<Rightarrow>
        Inr (here \<noteq> there))"

text \<open>Lines 123 to 292, the body of the loop over the faces of a shape.\<close>

definition face_step ::
  "('f, 'mat) float_ops \<Rightarrow> 'f attrib_t \<Rightarrow> mesh_t \<Rightarrow> int \<Rightarrow>
   ('f, 'mat) loader_state \<Rightarrow> error + ('f, 'mat) loader_state" where
  "face_step ops attrib m f s =
     (case read (num_face_vertices m) f of Inl e \<Rightarrow> Inl e | Inr fv \<Rightarrow>
      case for_each (corner_step ops attrib m fv) (map int [0 ..< nat fv]) s of
        Inl e \<Rightarrow> Inl e | Inr s1 \<Rightarrow>
      case checked (offset s1 + fv) of Inl e \<Rightarrow> Inl e | Inr off \<Rightarrow>
      case submesh_ends m f of Inl e \<Rightarrow> Inl e | Inr ends \<Rightarrow>
      if ends then
        Inr (s1\<lparr> offset := off,
                 submeshes := submeshes s1 @
                   [\<lparr> Mesh.vertices = cur_vertices s1, indices = cur_indices s1,
                      material = default_material ops \<rparr>],
                 unique_vertices := [], index_map := Map.empty,
                 cur_vertices := [], cur_indices := [] \<rparr>)
      else Inr (s1\<lparr> offset := off \<rparr>))"

text \<open>
  Lines 113 to 293, the body of the loop over the shapes. The counter \<open>f\<close> is an \<open>int\<close>:
  counting past \<open>INT_MAX\<close> faces is undefined behaviour.
\<close>

definition shape_step ::
  "('f, 'mat) float_ops \<Rightarrow> 'f attrib_t \<Rightarrow> shape_t \<Rightarrow> ('f, 'mat) Mesh list \<Rightarrow>
   error + ('f, 'mat) Mesh list" where
  "shape_step ops attrib shape ms =
     (let m = mesh shape in
      if int (length (num_face_vertices m)) > INT_MAX then Inl SignedOverflow
      else
        case for_each (face_step ops attrib m) (map int [0 ..< length (num_face_vertices m)])
               \<lparr> cur_vertices = [], cur_indices = [], unique_vertices = [],
                 index_map = Map.empty, offset = 0, submeshes = ms \<rparr> of
          Inl e \<Rightarrow> Inl e
        | Inr s \<Rightarrow> Inr (submeshes s))"

definition load_shapes ::
  "('f, 'mat) float_ops \<Rightarrow> 'f attrib_t \<Rightarrow> shape_t list \<Rightarrow> error + ('f, 'mat) Mesh list" where
  "load_shapes ops attrib shapes =
     (if int (length shapes) > INT_MAX then Inl SignedOverflow
      else for_each (shape_step ops attrib) shapes [])"

text \<open>
  Line 83 calls \<open>std::filesystem::exists(path)\<close>, the overload that reports failure by
  throwing. It asks the operating system for the status of the path. When the query
  succeeds there is a file; when it fails with \<open>ENOENT\<close> or \<open>ENOTDIR\<close> the answer is
  "not found"; any other failure (a component name that is too long, a directory that may
  not be searched) is thrown as \<open>filesystem_error\<close>. What the query yields is an input.
\<close>

datatype stat_outcome = Stat_succeeds | Stat_fails nat

definition ENOENT :: nat where "ENOENT = 2"
definition ENOTDIR :: nat where "ENOTDIR = 20"
definition ENAMETOOLONG :: nat where "ENAMETOOLONG = 36"

definition filesystem_exists :: "stat_outcome \<Rightarrow> error + bool" where
  "filesystem_exists outcome =
     (case outcome of
        Stat_succeeds \<Rightarrow> Inr True
      | Stat_fails errno \<Rightarrow>
          if errno = ENOENT \<or> errno = ENOTDIR then Inr False else Inl FilesystemError)"

text \<open>
  The whole function. What \<open>ParseFromFile\<close> produces (\<open>None\<close> when it returns false) is
  an input too. The result is the model, or the exception that left the function, or the
  undefined behaviour the loops ran into; and what was printed. Nothing in the function
  catches an exception.
\<close>

definition load_model ::
  "('f, 'mat) float_ops \<Rightarrow> stat_outcome \<Rightarrow> 'f ObjReader option \<Rightarrow> string \<Rightarrow>
   (error + ('f, 'mat) Model) \<times> ('d, 'm, 'v) call list" where
  "load_model ops outcome parsed path =
     (case filesystem_exists outcome of
        Inl thrown \<Rightarrow> (Inl thrown, [])
      | Inr found \<Rightarrow>
          if \<not> found then
            (Inr \<lparr> meshes = [] \<rparr>,
             [FprintfStderr ''Could not find model at path provided: %s'' [ArgStr path]])
          else
            case parsed of
              None \<Rightarrow>
                (Inr \<lparr> meshes = [] \<rparr>,
                 [FprintfStderr ''Failed to load model: %s'' [ArgStr path]])
            | Some reader \<Rightarrow>
                (case load_shapes ops (GetAttrib reader) (GetShapes reader) of
                   Inl e \<Rightarrow> Inl e
                 | Inr ms \<Rightarrow> Inr \<lparr> meshes = ms \<rparr>,
                 if Warning reader \<noteq> []
                 then [FprintfStderr ''Warning: %s'' [ArgStr (Warning reader)]]
                 else []))"


subsection \<open>What a well-formed submesh is\<close>

text \<open>
  Every index of a submesh points into its vertex list, and no vertex of the list equals
  (by \<open>operator==\<close>) a vertex stored before it.
\<close>

definition indices_in_range :: "('f, 'mat) Mesh \<Rightarrow> bool" where
  "indices_in_range m \<longleftrightarrow> (\<forall>i \<in> set (Mesh.indices m). i < length (Mesh.vertices m))"

definition stored_once :: "('f, 'mat) float_ops \<Rightarrow> 'f Vertex list \<Rightarrow> bool" where
  "stored_once ops vs \<longleftrightarrow>
     (\<forall>i j. i < j \<longrightarrow> j < length vs \<longrightarrow> \<not> vertex_eq ops (vs ! i) (vs ! j))"

definition state_ok :: "('f, 'mat) float_ops \<Rightarrow> ('f, 'mat) loader_state \<Rightarrow> bool" where
  "state_ok ops s \<longleftrightarrow>
     (\<forall>i \<in> set (cur_indices s). i < length (cur_vertices s))
   \<and> (\<forall>i \<in> ran (index_map s). i < length (cur_vertices s))
   \<and> map fst (unique_vertices s) = cur_vertices s
   \<and> (\<forall>e \<in> set (unique_vertices s). snd e < length (cur_vertices s))
   \<and> stored_once ops (cur_vertices s)
   \<and> (\<forall>m \<in> set (submeshes s). indices_in_range m \<and> stored_once ops (Mesh.vertices m))"


definition meshes_ok :: "('f, 'mat) float_ops \<Rightarrow> ('f, 'mat) Mesh list \<Rightarrow> bool" where
  "meshes_ok ops ms \<longleftrightarrow>
     (\<forall>m \<in> set ms. indices_in_range m \<and> stored_once ops (Mesh.vertices m))"

subsection \<open>A small model\<close>

text \<open>
  A unit square of two triangles over four positions. The corners of the second triangle
  name the second normal, which equals the first, so their \<open>index_t\<close> differ from those
  of the first triangle while their vertices do not. Floats are integers here, compared by
  equality.
\<close>

definition quad_ops :: "(int, unit) float_ops" where
  "quad_ops = \<lparr> fsub = (\<lambda>a b. a - b), cross = (\<lambda>a b. a), normalize = (\<lambda>a. a),
                feq = (\<lambda>a b. a = b), zero_f = 0, one_f = 1, default_material = () \<rparr>"

definition quad_reader :: "int ObjReader" where
  "quad_reader =
     \<lparr> Warning = [],
       GetAttrib = \<lparr> attrib_t.vertices = [0, 0, 0,  1, 0, 0,  1, 1, 0,  0, 1, 0],
                     normals = [0, 0, 1,  0, 0, 1], texcoords = [] \<rparr>,
       GetShapes =
         [\<lparr> shape_name = ''quad'',
            mesh = \<lparr> mesh_t.indices =
                       [\<lparr> vertex_index = 0, normal_index = 0, texcoord_index = - 1 \<rparr>,
                        \<lparr> vertex_index = 1, normal_index = 0, texcoord_index = - 1 \<rparr>,
                        \<lparr> vertex_index = 2, normal_index = 0, texcoord_index = - 1 \<rparr>,
                        \<lparr> vertex_index = 0, normal_index = 1, texcoord_index = - 1 \<rparr>,
                        \<lparr> vertex_index = 2, normal_index = 1, texcoord_index = - 1 \<rparr>,
                        \<lparr> vertex_index = 3, normal_index = 1, texcoord_index = - 1 \<rparr>],
                     num_face_vertices = [3, 3],
                     material_ids = [0, 0] \<rparr> \<rparr>] \<rparr>"


section \<open>Pitch stays clamped\<close>

lemma clamp_pitch_range: "- 89 \<le> clamp_pitch p \<and> clamp_pitch p \<le> 89"
  by (simp add: clamp_pitch_def Let_def)

lemma clamp_pitch_fixed: "- 89 \<le> p \<Longrightarrow> p \<le> 89 \<Longrightarrow> clamp_pitch p = p"
  by (simp add: clamp_pitch_def Let_def)

lemma mouse_callback_pitch:
  assumes "- 89 \<le> pitch s \<and> pitch s \<le> 89"
  shows "- 89 \<le> pitch (mouse_callback rd rf orient s x y)
       \<and> pitch (mouse_callback rd rf orient s x y) \<le> 89"
  using assms clamp_pitch_range by (simp add: mouse_callback_def Let_def)

lemma handle_event_pitch:
  assumes "- 89 \<le> pitch s \<and> pitch s \<le> 89"
  shows "- 89 \<le> pitch (handle_event rd rf orient s e)
       \<and> pitch (handle_event rd rf orient s e) \<le> 89"
proof (cases e)
  case (CursorPos x y)
  then show ?thesis using mouse_callback_pitch [OF assms] by simp
next
  case (MouseButton b a)
  then show ?thesis using assms by (simp add: mouse_button_callback_def)
next
  case (Hovered h)
  then show ?thesis using assms by simp
qed

lemma handle_events_pitch:
  assumes "- 89 \<le> pitch s \<and> pitch s \<le> 89"
  shows "- 89 \<le> pitch (handle_events rd rf orient s evs)
       \<and> pitch (handle_events rd rf orient s evs) \<le> 89"
  using assms unfolding handle_events_def
proof (induction evs arbitrary: s)
  case Nil
  then show ?case by simp
next
  case (Cons e evs)
  have "- 89 \<le> pitch (handle_event rd rf orient s e)
      \<and> pitch (handle_event rd rf orient s e) \<le> 89"
    by (rule handle_event_pitch [OF Cons.prems])
  from Cons.IH [OF this] show ?case by simp
qed

lemma yaw_reaches:
  fixes B :: real
  shows "\<exists>evs. B < yaw (handle_events (\<lambda>r. r) (\<lambda>r. r) orient (initial_input_state t) evs)"
proof -
  define x where "x = - ((\<bar>B\<bar> + 1) / sensitivity)"
  define evs where "evs = [Hovered True, MouseButton 0 1, CursorPos 0 0, CursorPos x 0]"
  have pos: "sensitivity \<noteq> 0" by (simp add: sensitivity_def)
  have "yaw (handle_events (\<lambda>r. r) (\<lambda>r. r) orient (initial_input_state t) evs)
          = (0 - x) * sensitivity"
    by (simp add: evs_def handle_events_def initial_input_state_def mouse_callback_def
        mouse_button_callback_def GLFW_MOUSE_BUTTON_LEFT_def GLFW_PRESS_def Let_def)
  also have "\<dots> = \<bar>B\<bar> + 1" using pos by (simp add: x_def)
  finally have "B < yaw (handle_events (\<lambda>r. r) (\<lambda>r. r) orient (initial_input_state t) evs)"
    by simp
  then show ?thesis by blast
qed

text \<open>
  Claim C6. Whatever cursor, button and hover events arrive, in any order and with offsets of
  any size and sign, and however the sums are rounded, the stored pitch lies between
  -89 and 89 degrees after every event. Clamping an already clamped value changes nothing.
  Yaw has no clamp: with exact arithmetic, a drag can carry it past any bound.
\<close>

theorem pitch_clamped_yaw_free:
  "(- 89 \<le> pitch (handle_events rd rf orient (initial_input_state t) evs)
      \<and> pitch (handle_events rd rf orient (initial_input_state t) evs) \<le> 89)
   \<and> clamp_pitch (clamp_pitch p) = clamp_pitch p
   \<and> (\<exists>evs'. B < yaw (handle_events (\<lambda>r. r) (\<lambda>r. r) orient (initial_input_state t) evs'))"
proof -
  have init: "- 89 \<le> pitch (initial_input_state t) \<and> pitch (initial_input_state t) \<le> 89"
    by (simp add: initial_input_state_def)
  have idem: "clamp_pitch (clamp_pitch p) = clamp_pitch p"
    using clamp_pitch_range [of p] by (simp add: clamp_pitch_fixed)
  have rng: "- 89 \<le> pitch (handle_events rd rf orient (initial_input_state t) evs)
      \<and> pitch (handle_events rd rf orient (initial_input_state t) evs) \<le> 89"
    by (rule handle_events_pitch [OF init])
  have free: "\<exists>evs'. B < yaw (handle_events (\<lambda>r. r) (\<lambda>r. r) orient (initial_input_state t) evs')"
    by (rule yaw_reaches)
  from rng idem free show ?thesis by simp
qed

section \<open>The material packer is faithful\<close>

lemma compress_all_map: "compress_all ms acc = acc @ map compress ms"
  by (induction ms arbitrary: acc) simp_all

lemma stride_4: "stride = 4"
  by (simp add: stride_def sizeof_vec4_def sizeof_CompressedMaterial_def)

lemma length_texels: "length (texels cs) = 4 * length cs"
  by (induction cs) (simp_all add: texels_def texels_of_def)

lemma texels_nth:
  "i < length cs \<Longrightarrow> k < 4 \<Longrightarrow> texels cs ! (4 * i + k) = texels_of (cs ! i) ! k"
proof (induction cs arbitrary: i)
  case Nil then show ?case by simp
next
  case (Cons c cs)
  have l: "length (texels_of c) = 4" by (simp add: texels_of_def)
  show ?case
  proof (cases i)
    case 0
    then show ?thesis using Cons.prems l by (simp add: texels_def nth_append)
  next
    case (Suc j)
    then have "texels (c # cs) ! (4 * i + k) = texels cs ! (4 * j + k)"
      using l by (simp add: texels_def nth_append)
    then show ?thesis using Cons Suc by simp
  qed
qed

lemma to_GLsizei_small: "n < 2 ^ 31 \<Longrightarrow> to_GLsizei n = int n"
  unfolding to_GLsizei_def
  by (simp add: signed_of_nat signed_take_bit_int_eq_self)

lemma upload_width_small:
  assumes "4 * length cs < 2 ^ 31"
  shows "upload_width cs = 4 * int (length cs)"
proof -
  have "4 * length cs < (2::nat) ^ 64" using assms by (rule less_trans) simp
  then have "size_t_mul stride (length cs) = 4 * length cs"
    by (simp add: size_t_mul_def stride_4)
  then show ?thesis using assms by (simp add: upload_width_def to_GLsizei_small)
qed

text \<open>
  Claim C4, as amended. For a material table of any size \<open>N\<close>, the packer builds exactly
  \<open>N\<close> records, that is \<open>4 * N\<close> four-component texels. Record \<open>i\<close> holds material \<open>i\<close>:
  its diffuse, specular and emission texels are the material's triples followed by
  \<open>1.0f\<close>, its roughness texel repeats the material's roughness four times, and they sit
  at texels \<open>4 * i\<close> to \<open>4 * i + 3\<close>. When \<open>4 * N\<close> is below \<open>2^31\<close>, the image is requested
  with width \<open>4 * N\<close>, height 1 and the packed buffer (the null pointer for the empty
  table). That bound is needed for the width only: the width parameter is a 32-bit \<open>int\<close>.
\<close>

theorem material_pack_faithful:
  fixes all :: "('f::one) Material list"
  shows "length (compress_all all []) = length all
    \<and> length (texels (compress_all all [])) = 4 * length all
    \<and> (\<forall>i<length all.
          xyz (diffuse (compress_all all [] ! i)) = Material.diffuse (all ! i)
        \<and> xyz (specular (compress_all all [] ! i)) = Material.specular (all ! i)
        \<and> xyz (emission (compress_all all [] ! i)) = Material.emission (all ! i)
        \<and> roughness (compress_all all [] ! i) = vec4_of_scalar (Material.roughness (all ! i))
        \<and> texels (compress_all all []) ! (stride * i) = vec4_of_vec3 (Material.diffuse (all ! i)) 1
        \<and> texels (compress_all all []) ! (stride * i + 1) = vec4_of_vec3 (Material.specular (all ! i)) 1
        \<and> texels (compress_all all []) ! (stride * i + 2) = vec4_of_vec3 (Material.emission (all ! i)) 1
        \<and> texels (compress_all all []) ! (stride * i + 3) = vec4_of_scalar (Material.roughness (all ! i)))
    \<and> (4 * length all < 2 ^ 31 \<longrightarrow>
          snd (allocate_pt_materials all name pt) ! 3
            = TexImage2D GL_RGBA32F (4 * int (length all)) 1
                (if all = [] then None else Some (texels (compress_all all []))))"
proof -
  let ?cs = "compress_all all []"
  have cs: "?cs = map compress all" by (simp add: compress_all_map)
  have len: "length ?cs = length all" by (simp add: cs)
  have fields: "xyz (diffuse (?cs ! i)) = Material.diffuse (all ! i)
        \<and> xyz (specular (?cs ! i)) = Material.specular (all ! i)
        \<and> xyz (emission (?cs ! i)) = Material.emission (all ! i)
        \<and> roughness (?cs ! i) = vec4_of_scalar (Material.roughness (all ! i))"
    if "i < length all" for i
  proof -
    obtain a b c where d: "Material.diffuse (all ! i) = Vec3 a b c"
      by (cases "Material.diffuse (all ! i)")
    obtain a' b' c' where s: "Material.specular (all ! i) = Vec3 a' b' c'"
      by (cases "Material.specular (all ! i)")
    obtain a'' b'' c'' where e: "Material.emission (all ! i) = Vec3 a'' b'' c''"
      by (cases "Material.emission (all ! i)")
    show ?thesis using that by (simp add: cs compress_def d s e)
  qed
  have tex: "texels ?cs ! (stride * i) = vec4_of_vec3 (Material.diffuse (all ! i)) 1
        \<and> texels ?cs ! (stride * i + 1) = vec4_of_vec3 (Material.specular (all ! i)) 1
        \<and> texels ?cs ! (stride * i + 2) = vec4_of_vec3 (Material.emission (all ! i)) 1
        \<and> texels ?cs ! (stride * i + 3) = vec4_of_scalar (Material.roughness (all ! i))"
    if "i < length all" for i
  proof -
    have i: "i < length ?cs" using that len by simp
    have c: "?cs ! i = compress (all ! i)" using that by (simp add: cs)
    have "texels ?cs ! (4 * i + 0) = texels_of (?cs ! i) ! 0"
         "texels ?cs ! (4 * i + 1) = texels_of (?cs ! i) ! 1"
         "texels ?cs ! (4 * i + 2) = texels_of (?cs ! i) ! 2"
         "texels ?cs ! (4 * i + 3) = texels_of (?cs ! i) ! 3"
      using i by (simp_all only: texels_nth) 
    then show ?thesis by (simp add: stride_4 c texels_of_def compress_def)
  qed
  have pointer: "data_of ?cs = (if all = [] then None else Some (texels ?cs))"
    by (simp add: data_of_def cs)
  have call: "snd (allocate_pt_materials all name pt) ! 3
         = TexImage2D GL_RGBA32F (4 * int (length all)) 1
             (if all = [] then None else Some (texels ?cs))"
    if small: "4 * length all < 2 ^ 31"
  proof -
    have width: "upload_width ?cs = 4 * int (length all)"
      using upload_width_small [of ?cs] small len by simp
    show ?thesis
      by (simp add: allocate_pt_materials_def Let_def width pointer)
  qed
  have four: "length (texels ?cs) = 4 * length all"
    using length_texels [of ?cs] len by simp
  from len four fields tex call show ?thesis by blast
qed

theorem material_pack_faithful_witness:
  "4 * length [\<lparr> Material.diffuse = Vec3 1 2 3, specular = Vec3 4 5 6, emission = Vec3 7 8 9,
                   roughness = (10::real) \<rparr>,
                \<lparr> Material.diffuse = Vec3 11 12 13, specular = Vec3 14 15 16,
                   emission = Vec3 17 18 19, roughness = 20 \<rparr>] < (2::nat) ^ 31
   \<and> length (compress_all
        [\<lparr> Material.diffuse = Vec3 1 2 3, specular = Vec3 4 5 6, emission = Vec3 7 8 9,
            roughness = (10::real) \<rparr>,
         \<lparr> Material.diffuse = Vec3 11 12 13, specular = Vec3 14 15 16,
            emission = Vec3 17 18 19, roughness = 20 \<rparr>] []) = 2
   \<and> texels (compress_all
        [\<lparr> Material.diffuse = Vec3 1 2 3, specular = Vec3 4 5 6, emission = Vec3 7 8 9,
            roughness = (10::real) \<rparr>,
         \<lparr> Material.diffuse = Vec3 11 12 13, specular = Vec3 14 15 16,
            emission = Vec3 17 18 19, roughness = 20 \<rparr>] []) ! (stride * 1 + 1)
       = Vec4 14 15 16 1
   \<and> (snd (allocate_pt_materials
        [\<lparr> Material.diffuse = Vec3 1 2 3, specular = Vec3 4 5 6, emission = Vec3 7 8 9,
            roughness = (10::real) \<rparr>,
         \<lparr> Material.diffuse = Vec3 11 12 13, specular = Vec3 14 15 16,
            emission = Vec3 17 18 19, roughness = 20 \<rparr>] 7
        \<lparr> materials_texture = 0, environment_map = 0, render_target = 0 \<rparr>)
          :: (real vec4 list, unit, unit) call list) ! 3
       = TexImage2D GL_RGBA32F 8 1
           (Some [Vec4 1 2 3 1, Vec4 4 5 6 1, Vec4 7 8 9 1, Vec4 10 10 10 10,
                  Vec4 11 12 13 1, Vec4 14 15 16 1, Vec4 17 18 19 1, Vec4 20 20 20 20])"
proof -
  let ?ms = "[\<lparr> Material.diffuse = Vec3 1 2 3, specular = Vec3 4 5 6, emission = Vec3 7 8 9,
                 roughness = (10::real) \<rparr>,
              \<lparr> Material.diffuse = Vec3 11 12 13, specular = Vec3 14 15 16,
                 emission = Vec3 17 18 19, roughness = 20 \<rparr>]"
  let ?pt = "\<lparr> materials_texture = 0, environment_map = 0, render_target = 0 \<rparr>"
  have small: "4 * length ?ms < (2::nat) ^ 31" by simp
  note packed = material_pack_faithful [where all = ?ms and name = 7 and pt = ?pt]
  from packed have n: "length (compress_all ?ms []) = length ?ms" by (rule conjunct1)
  from packed have
    "1 < length ?ms \<longrightarrow> texels (compress_all ?ms []) ! (stride * 1 + 1)
       = vec4_of_vec3 (Material.specular (?ms ! 1)) 1"
    by blast
  then have t: "texels (compress_all ?ms []) ! (stride * 1 + 1) = Vec4 14 15 16 1"
    by simp
  from packed have "4 * length ?ms < 2 ^ 31 \<longrightarrow>
      (snd (allocate_pt_materials ?ms 7 ?pt) :: (real vec4 list, unit, unit) call list) ! 3
        = TexImage2D GL_RGBA32F (4 * int (length ?ms)) 1
            (if ?ms = [] then None else Some (texels (compress_all ?ms [])))"
    by blast
  with small have
    "(snd (allocate_pt_materials ?ms 7 ?pt) :: (real vec4 list, unit, unit) call list) ! 3
        = TexImage2D GL_RGBA32F (4 * int (length ?ms)) 1
            (if ?ms = [] then None else Some (texels (compress_all ?ms [])))"
    by (rule rev_mp)
  then have c: "(snd (allocate_pt_materials ?ms 7 ?pt) :: (real vec4 list, unit, unit) call list) ! 3
       = TexImage2D GL_RGBA32F 8 1
           (Some [Vec4 1 2 3 1, Vec4 4 5 6 1, Vec4 7 8 9 1, Vec4 10 10 10 10,
                  Vec4 11 12 13 1, Vec4 14 15 16 1, Vec4 17 18 19 1, Vec4 20 20 20 20])"
    by (simp add: texels_def texels_of_def compress_def vec4_of_scalar_def)
  from small n t c show ?thesis by simp
qed

text \<open>
  Claim C4, as stated, at a table of \<open>2^29\<close> materials: the width that reaches
  \<open>glTexImage2D\<close> is \<open>- 2^31\<close>, not \<open>4 * 2^29\<close>.
\<close>

theorem material_upload_width_counterexample:
  "upload_width (compress_all (replicate (2 ^ 29)
       \<lparr> Material.diffuse = Vec3 0 0 0, specular = Vec3 0 0 0, emission = Vec3 0 0 0,
         roughness = (0::real) \<rparr>) [])
     = - 2147483648"
  by (simp add: compress_all_map upload_width_def to_GLsizei_def size_t_mul_def stride_4)

section \<open>What one frame and the frame loop call\<close>

lemma filter_draws:
  "filter is_upload (concat (map (draw sp) bs)) = []"
  "filter is_free (concat (map (draw sp) bs)) = []"
  "filter is_dispatch (concat (map (draw sp) bs)) = []"
  by (induction bs) (simp_all add: draw_def)

lemma gbuffer_pass_calls:
  assumes "gbuffer_pass cam fb buffers sp = Inr drawn"
  shows "filter is_upload drawn = []" "filter is_free drawn = []" "filter is_dispatch drawn = []"
proof -
  from assms obtain first :: GLBuffers where
    d: "drawn = [ BindFramebuffer (framebuffer fb), ClearColor, Clear, UseProgram sp,
                  SetMat4 sp ''model'' (model cam), SetMat4 sp ''view'' (view cam),
                  SetMat4 sp ''projection'' (projection cam), BindVertexArray (vao first) ]
                @ concat (map (draw sp) buffers)"
    by (auto simp: gbuffer_pass_def split: list.splits)
  show "filter is_upload drawn = []" unfolding d by (simp only: filter_append filter_draws) simp
  show "filter is_free drawn = []" unfolding d by (simp only: filter_append filter_draws) simp
  show "filter is_dispatch drawn = []" unfolding d by (simp only: filter_append filter_draws) simp
qed

lemma gbuffer_pass_total:
  "buffers \<noteq> [] \<Longrightarrow> \<exists>drawn. gbuffer_pass cam fb buffers sp = Inr drawn"
  by (cases buffers) (simp_all add: gbuffer_pass_def)

lemma bind_inputs_calls:
  "filter is_upload (bind_inputs fb ptp pt) = []"
  "filter is_free (bind_inputs fb ptp pt) = []"
  "filter is_dispatch (bind_inputs fb ptp pt) = []"
  by (simp_all add: bind_inputs_def)

lemma path_trace_dispatch_calls:
  "filter is_upload (path_trace_dispatch cam ptp pt) = []"
  "filter is_free (path_trace_dispatch cam ptp pt) = []"
  "filter is_dispatch (path_trace_dispatch cam ptp pt) = [DispatchCompute RENDER_WIDTH RENDER_HEIGHT 1]"
  by (simp_all add: path_trace_dispatch_def)

lemma loading_calls:
  assumes "environment_map_loading name fut pt = (fut', pt', cs)"
  shows "filter is_dispatch cs = []"
    and "length (filter is_upload cs) = (if fut' = fut then 0 else 1)"
    and "length (filter is_free cs) = (if fut' = fut then 0 else 1)"
    and "fut' = fut \<or> fut' = Invalid"
    and "fut = Invalid \<Longrightarrow> fut' = Invalid"
  using assms
  by (auto simp: environment_map_loading_def split: future.splits prod.splits)

lemma frame_calls:
  assumes "render_pt_pipeline cam name fut fb buffers sp ptp pt = Inr (fut', pt', cs)"
  shows "filter is_dispatch cs = [DispatchCompute RENDER_WIDTH RENDER_HEIGHT 1]"
    and "length (filter is_upload cs) = (if fut' = fut then 0 else 1)"
    and "length (filter is_free cs) = (if fut' = fut then 0 else 1)"
    and "fut' = fut \<or> fut' = Invalid"
    and "fut = Invalid \<Longrightarrow> fut' = Invalid"
proof -
  from assms obtain drawn loading where
    g: "gbuffer_pass cam fb buffers sp = Inr drawn" and
    l: "environment_map_loading name fut pt = (fut', pt', loading)" and
    cs: "cs = drawn @ bind_inputs fb ptp pt @ loading @ path_trace_dispatch cam ptp pt'"
    by (auto simp: render_pt_pipeline_def split: sum.splits prod.splits)
  note G = gbuffer_pass_calls [OF g] and L = loading_calls [OF l]
  show "filter is_dispatch cs = [DispatchCompute RENDER_WIDTH RENDER_HEIGHT 1]"
    by (simp add: cs G L bind_inputs_calls path_trace_dispatch_calls)
  show "length (filter is_upload cs) = (if fut' = fut then 0 else 1)"
    by (simp add: cs G L bind_inputs_calls path_trace_dispatch_calls)
  show "length (filter is_free cs) = (if fut' = fut then 0 else 1)"
    by (simp add: cs G L bind_inputs_calls path_trace_dispatch_calls)
  show "fut' = fut \<or> fut' = Invalid" by (rule L)
  show "fut = Invalid \<Longrightarrow> fut' = Invalid" by (rule L)
qed

lemma frame_total:
  fixes fut :: "'d exr_result future" and cam :: "('m, 'v) camera_uniforms"
  assumes "buffers \<noteq> []"
  shows "\<exists>fut' pt' cs. render_pt_pipeline cam name fut fb buffers sp ptp pt = Inr (fut', pt', cs)"
proof -
  from gbuffer_pass_total [OF assms] obtain drawn :: "('d, 'm, 'v) call list" where
    "gbuffer_pass cam fb buffers sp = Inr drawn" by blast
  then show ?thesis
    by (simp add: render_pt_pipeline_def split: prod.splits)
qed

lemma observe_cases:
  "observe result fin fut = fut \<or> (fut = Pending \<and> observe result fin fut = Ready result)"
  "observe result fin fut = Invalid \<longleftrightarrow> fut = Invalid"
  by (auto simp: observe_def)

lemma main_loop_run:
  fixes fut :: "'d exr_result future" and frames :: "('m, 'v) frame_input list"
  assumes "buffers \<noteq> []"
  shows "\<exists>fut' pt' cs.
      main_loop result fb buffers sp ptp frames (fut, pt) = Inr ((fut', pt'), cs)
    \<and> length (filter is_upload cs) = (if fut' = Invalid \<and> fut \<noteq> Invalid then 1 else 0)
    \<and> length (filter is_free cs) = (if fut' = Invalid \<and> fut \<noteq> Invalid then 1 else 0)
    \<and> (fut = Invalid \<longrightarrow> fut' = Invalid)
    \<and> filter is_dispatch cs
        = replicate (length frames) (DispatchCompute RENDER_WIDTH RENDER_HEIGHT 1)"
proof (induction frames arbitrary: fut pt)
  case Nil
  show ?case by simp
next
  case (Cons frame frames)
  define f1 where "f1 = observe result (task_finished frame) fut"
  from frame_total [OF assms, where cam = "uniforms frame" and name = "texture_name frame"
      and fut = f1 and fb = fb and sp = sp and ptp = ptp and pt = pt]
  obtain f2 p2 and c2 :: "('d, 'm, 'v) call list" where
    r: "render_pt_pipeline (uniforms frame) (texture_name frame) f1 fb buffers sp ptp pt
          = Inr (f2, p2, c2)"
    by (elim exE) (rule that)
  note F = frame_calls [OF r]
  from Cons.IH [of f2 p2] obtain f3 p3 c3 where
    m: "main_loop result fb buffers sp ptp frames (f2, p2) = Inr ((f3, p3), c3)" and
    u: "length (filter is_upload c3) = (if f3 = Invalid \<and> f2 \<noteq> Invalid then 1 else 0)" and
    f: "length (filter is_free c3) = (if f3 = Invalid \<and> f2 \<noteq> Invalid then 1 else 0)" and
    i: "f2 = Invalid \<longrightarrow> f3 = Invalid" and
    d: "filter is_dispatch c3
          = replicate (length frames) (DispatchCompute RENDER_WIDTH RENDER_HEIGHT 1)"
    by (elim exE conjE) (rule that; assumption)
  have ui: "filter is_upload (render_ui_pipeline :: ('d, 'm, 'v) call list) = []"
    "filter is_free (render_ui_pipeline :: ('d, 'm, 'v) call list) = []"
    "filter is_dispatch (render_ui_pipeline :: ('d, 'm, 'v) call list) = []"
    by (simp_all add: render_ui_pipeline_def)
  have run: "main_loop result fb buffers sp ptp (frame # frames) (fut, pt)
               = Inr ((f3, p3), c2 @ render_ui_pipeline @ c3)"
    using r m by (simp add: f1_def)
  have o: "f1 = Invalid \<longleftrightarrow> fut = Invalid" unfolding f1_def by (rule observe_cases)
  have up: "length (filter is_upload (c2 @ render_ui_pipeline @ c3))
              = (if f3 = Invalid \<and> fut \<noteq> Invalid then 1 else 0)"
    using F(2) F(4) u i o by (auto simp: ui split: if_splits)
  have fr: "length (filter is_free (c2 @ render_ui_pipeline @ c3))
              = (if f3 = Invalid \<and> fut \<noteq> Invalid then 1 else 0)"
    using F(3) F(4) f i o by (auto simp: ui split: if_splits)
  have inv: "fut = Invalid \<longrightarrow> f3 = Invalid"
    using F(5) i o by blast
  have di: "filter is_dispatch (c2 @ render_ui_pipeline @ c3)
      = replicate (length (frame # frames)) (DispatchCompute RENDER_WIDTH RENDER_HEIGHT 1)"
    using F(1) d by (simp add: ui)
  show ?case
  proof (intro exI conjI)
    show "main_loop result fb buffers sp ptp (frame # frames) (fut, pt)
               = Inr ((f3, p3), c2 @ render_ui_pipeline @ c3)" by (rule run)
  qed (rule up fr inv di)+
qed

lemma main_loop_total:
  fixes fut :: "'d exr_result future" and frames :: "('m, 'v) frame_input list"
  assumes "buffers \<noteq> []"
  shows "\<exists>state' cs. main_loop result fb buffers sp ptp frames (fut, pt) = Inr (state', cs)"
proof -
  from main_loop_run [OF assms, where result = result and fb = fb and sp = sp and ptp = ptp
      and frames = frames and fut = fut and pt = pt]
  obtain fut' pt' cs where
    "main_loop result fb buffers sp ptp frames (fut, pt) = Inr ((fut', pt'), cs)"
    by (elim exE conjE) (rule that)
  then show ?thesis by (intro exI)
qed


lemma frame_binds:
  assumes "render_pt_pipeline cam name fut fb buffers sp ptp pt = Inr (fut', pt', cs)"
    and "BindFramebuffer n \<in> set cs"
  shows "n = framebuffer fb"
proof -
  from assms(1) obtain drawn loading where
    g: "gbuffer_pass cam fb buffers sp = Inr drawn" and
    l: "environment_map_loading name fut pt = (fut', pt', loading)" and
    cs: "cs = drawn @ bind_inputs fb ptp pt @ loading @ path_trace_dispatch cam ptp pt'"
    by (auto simp: render_pt_pipeline_def split: sum.splits prod.splits)
  have a: "BindFramebuffer n \<notin> set (concat (map (draw sp) buffers))"
    by (induction buffers) (simp_all add: draw_def)
  have b: "BindFramebuffer n \<in> set drawn \<Longrightarrow> n = framebuffer fb"
    using g a by (auto simp: gbuffer_pass_def split: list.splits)
  have c: "BindFramebuffer n \<notin> set (bind_inputs fb ptp pt)"
    by (simp add: bind_inputs_def)
  have d: "BindFramebuffer n \<notin> set loading"
    using l by (auto simp: environment_map_loading_def split: future.splits prod.splits)
  have e: "BindFramebuffer n \<notin> set (path_trace_dispatch cam ptp pt')"
    by (simp add: path_trace_dispatch_def)
  from assms(2) b c d e show ?thesis unfolding cs by auto
qed

lemma main_loop_binds:
  assumes "main_loop result fb buffers sp ptp frames state = Inr (state', cs)"
    and "BindFramebuffer n \<in> set cs"
  shows "n = framebuffer fb \<or> n = 0"
  using assms
proof (induction frames arbitrary: state cs)
  case Nil
  then show ?case by simp
next
  case (Cons frame frames)
  from Cons.prems(1) obtain f2 p2 c2 where
    r: "render_pt_pipeline (uniforms frame) (texture_name frame)
          (observe result (task_finished frame) (fst state)) fb buffers sp ptp (snd state)
        = Inr (f2, p2, c2)"
    by (auto split: sum.splits)
  from Cons.prems(1) r obtain c3 where
    m: "main_loop result fb buffers sp ptp frames (f2, p2) = Inr (state', c3)" and
    cs: "cs = c2 @ render_ui_pipeline @ c3"
    by (auto split: sum.splits)
  from Cons.prems(2) have "BindFramebuffer n \<in> set c2
      \<or> BindFramebuffer n \<in> set (render_ui_pipeline :: ('a, 'b, 'c) call list)
      \<or> BindFramebuffer n \<in> set c3"
    unfolding cs by auto
  then show ?case
  proof (elim disjE)
    assume "BindFramebuffer n \<in> set c2"
    from frame_binds [OF r this] show ?thesis by simp
  next
    assume "BindFramebuffer n \<in> set (render_ui_pipeline :: ('a, 'b, 'c) call list)"
    then show ?thesis by (simp add: render_ui_pipeline_def)
  next
    assume "BindFramebuffer n \<in> set c3"
    from Cons.IH [OF m this] show ?thesis .
  qed
qed

section \<open>A failed decode\<close>

text \<open>
  Claim C1, as amended. When \<open>LoadEXR\<close> fails, the loader logs the error and returns the
  sentinel (null data, zero width and height). In the frame that finds the future resolved,
  the frame takes the result, prints its message, generates a texture name, stores it in
  \<open>pt.environment_map\<close> and requests a \<open>0 x 0\<close> image with no data for it; it frees the
  null pointer, leaves the future without shared state, and goes on to the dispatch. The
  frame is not aborted, and the loop runs every further frame.
\<close>

theorem failed_decode_creates_empty_image:
  fixes camera :: "('m, 'v) camera_uniforms" and data :: "'d option"
    and log :: "('d, 'm, 'v) call list"
  assumes "exr_loader (ret, data, width, height, err) = (result, log)"
    and "ret \<noteq> 0"
    and "buffers \<noteq> []"
  shows "result = (None, 0, 0)
    \<and> log = [LogError ''Error loading EXR: %s'' [ArgStr err], FreeEXRErrorMessage err]
    \<and> (\<exists>drawn.
          gbuffer_pass camera fb buffers shader_program = Inr drawn
        \<and> render_pt_pipeline camera name (Ready result) fb buffers shader_program
             path_tracer_program pt
            = Inr (Invalid, pt\<lparr> environment_map := name \<rparr>,
                   drawn @ bind_inputs fb path_tracer_program pt
                   @ [ Printf ''Creating environment map texture\<newline>'' [],
                       GenTextures name,
                       BindTexture name,
                       TexImage2D GL_RGBA32F 0 0 None,
                       TexParameteri GL_TEXTURE_MIN_FILTER GL_LINEAR,
                       TexParameteri GL_TEXTURE_MAG_FILTER GL_LINEAR,
                       Free None,
                       BindTexture 0,
                       ActiveTexture 5, BindTexture 0 ]
                   @ path_trace_dispatch camera path_tracer_program
                       (pt\<lparr> environment_map := name \<rparr>)))
    \<and> (\<exists>state' calls.
          main_loop result fb buffers shader_program path_tracer_program frames (Ready result, pt)
            = Inr (state', calls :: ('d, 'm, 'v) call list))"
proof -
  have res: "result = (None, 0, 0)"
    and lg: "log = [LogError ''Error loading EXR: %s'' [ArgStr err], FreeEXRErrorMessage err]"
    using assms(1,2) by (simp_all add: exr_loader_def)
  from gbuffer_pass_total [OF assms(3), where cam = camera and fb = fb and sp = shader_program]
  obtain drawn :: "('d, 'm, 'v) call list" where
    g: "gbuffer_pass camera fb buffers shader_program = Inr drawn"
    by (elim exE) (rule that)
  have frame: "render_pt_pipeline camera name (Ready result) fb buffers shader_program
             path_tracer_program pt
            = Inr (Invalid, pt\<lparr> environment_map := name \<rparr>,
                   drawn @ bind_inputs fb path_tracer_program pt
                   @ [ Printf ''Creating environment map texture\<newline>'' [],
                       GenTextures name,
                       BindTexture name,
                       TexImage2D GL_RGBA32F 0 0 None,
                       TexParameteri GL_TEXTURE_MIN_FILTER GL_LINEAR,
                       TexParameteri GL_TEXTURE_MAG_FILTER GL_LINEAR,
                       Free None,
                       BindTexture 0,
                       ActiveTexture 5, BindTexture 0 ]
                   @ path_trace_dispatch camera path_tracer_program
                       (pt\<lparr> environment_map := name \<rparr>))"
    by (simp add: render_pt_pipeline_def g environment_map_loading_def res)
  have loop: "\<exists>state' calls.
          main_loop result fb buffers shader_program path_tracer_program frames (Ready result, pt)
            = Inr (state', calls :: ('d, 'm, 'v) call list)"
    by (rule main_loop_total [OF assms(3)])
  from g frame have "\<exists>drawn.
          gbuffer_pass camera fb buffers shader_program = Inr drawn
        \<and> render_pt_pipeline camera name (Ready result) fb buffers shader_program
             path_tracer_program pt
            = Inr (Invalid, pt\<lparr> environment_map := name \<rparr>,
                   drawn @ bind_inputs fb path_tracer_program pt
                   @ [ Printf ''Creating environment map texture\<newline>'' [],
                       GenTextures name,
                       BindTexture name,
                       TexImage2D GL_RGBA32F 0 0 None,
                       TexParameteri GL_TEXTURE_MIN_FILTER GL_LINEAR,
                       TexParameteri GL_TEXTURE_MAG_FILTER GL_LINEAR,
                       Free None,
                       BindTexture 0,
                       ActiveTexture 5, BindTexture 0 ]
                   @ path_trace_dispatch camera path_tracer_program
                       (pt\<lparr> environment_map := name \<rparr>))"
    by (intro exI conjI)
  with res lg loop show ?thesis by (intro conjI)
qed

theorem failed_decode_creates_empty_image_witness:
  "exr_loader (- 1, None :: real list option, 0, 0, ''no such file'')
     = ((None, 0, 0),
        [LogError ''Error loading EXR: %s'' [ArgStr ''no such file''],
         FreeEXRErrorMessage ''no such file''] :: (real list, unit, unit) call list)
   \<and> (- 1 :: int) \<noteq> 0
   \<and> [\<lparr> vao = 11, vbo = 12, ebo = 13, count = 6, source_material_index = 0 \<rparr>] \<noteq> []
   \<and> (\<exists>state' calls.
         main_loop (None :: real list option, 0, 0)
           \<lparr> framebuffer = 1, g_position = 2, g_normal = 3, g_material_index = 4 \<rparr>
           [\<lparr> vao = 11, vbo = 12, ebo = 13, count = 6, source_material_index = 0 \<rparr>] 20 21
           [\<lparr> task_finished = True, texture_name = 9,
              uniforms = \<lparr> model = (), view = (), projection = (), camera_position = (),
                           axis_u = (), axis_v = (), axis_w = () \<rparr> \<rparr>]
           (Ready (None, 0, 0),
            \<lparr> materials_texture = 5, environment_map = 0, render_target = 6 \<rparr>)
         = Inr (state', calls :: (real list, unit, unit) call list))"
proof -
  have loader: "exr_loader (- 1, None :: real list option, 0, 0, ''no such file'')
     = ((None, 0, 0),
        [LogError ''Error loading EXR: %s'' [ArgStr ''no such file''],
         FreeEXRErrorMessage ''no such file''] :: (real list, unit, unit) call list)"
    by (simp add: exr_loader_def)
  have failed: "(- 1 :: int) \<noteq> 0" by simp
  have some: "[\<lparr> vao = 11, vbo = 12, ebo = 13, count = 6, source_material_index = 0 \<rparr>] \<noteq> []"
    by simp
  note frame = failed_decode_creates_empty_image [OF loader failed some,
      where frames = "[\<lparr> task_finished = True, texture_name = 9,
              uniforms = \<lparr> model = (), view = (), projection = (), camera_position = (),
                           axis_u = (), axis_v = (), axis_w = () \<rparr> \<rparr>]"
        and fb = "\<lparr> framebuffer = 1, g_position = 2, g_normal = 3, g_material_index = 4 \<rparr>"
        and shader_program = 20 and path_tracer_program = 21 and name = 9
        and camera = "\<lparr> model = (), view = (), projection = (), camera_position = (),
                           axis_u = (), axis_v = (), axis_w = () \<rparr>"
        and pt = "\<lparr> materials_texture = 5, environment_map = 0, render_target = 6 \<rparr>"]
  from frame have "\<exists>state' calls.
         main_loop (None :: real list option, 0, 0)
           \<lparr> framebuffer = 1, g_position = 2, g_normal = 3, g_material_index = 4 \<rparr>
           [\<lparr> vao = 11, vbo = 12, ebo = 13, count = 6, source_material_index = 0 \<rparr>] 20 21
           [\<lparr> task_finished = True, texture_name = 9,
              uniforms = \<lparr> model = (), view = (), projection = (), camera_position = (),
                           axis_u = (), axis_v = (), axis_w = () \<rparr> \<rparr>]
           (Ready (None, 0, 0),
            \<lparr> materials_texture = 5, environment_map = 0, render_target = 6 \<rparr>)
         = Inr (state', calls :: (real list, unit, unit) call list)"
    by (elim conjE) assumption
  with loader failed some show ?thesis by (intro conjI)
qed

text \<open>
  Claim C1, as stated, on a frame with one submesh whose future holds the sentinel of a
  failed decode: the frame prints, generates texture 9, makes it the environment map and
  requests an image for it.
\<close>

theorem failed_decode_counterexample:
  "render_pt_pipeline
     \<lparr> model = (), view = (), projection = (), camera_position = (), axis_u = (), axis_v = (),
       axis_w = () \<rparr>
     9
     (Ready (fst (exr_loader (- 1, None :: real list option, 0, 0, ''no such file'')
                    :: real list exr_result \<times> (real list, unit, unit) call list)))
     \<lparr> framebuffer = 1, g_position = 2, g_normal = 3, g_material_index = 4 \<rparr>
     [\<lparr> vao = 11, vbo = 12, ebo = 13, count = 6, source_material_index = 0 \<rparr>]
     20 21
     \<lparr> materials_texture = 5, environment_map = 0, render_target = 6 \<rparr>
   = Inr (Invalid,
          \<lparr> materials_texture = 5, environment_map = 9, render_target = 6 \<rparr>,
          [ BindFramebuffer 1, ClearColor, Clear, UseProgram 20,
            SetMat4 20 ''model'' (), SetMat4 20 ''view'' (), SetMat4 20 ''projection'' (),
            BindVertexArray 11,
            SetUint 20 ''material_index'' 0, BindVertexArray 11, DrawElements 6,
            UseProgram 21,
            ActiveTexture 1, BindTexture 2, ActiveTexture 2, BindTexture 3,
            ActiveTexture 4, BindTexture 4, ActiveTexture 3, BindTexture 5,
            Printf ''Creating environment map texture\<newline>'' [],
            GenTextures 9, BindTexture 9,
            TexImage2D GL_RGBA32F 0 0 None,
            TexParameteri GL_TEXTURE_MIN_FILTER GL_LINEAR,
            TexParameteri GL_TEXTURE_MAG_FILTER GL_LINEAR,
            Free None, BindTexture 0,
            ActiveTexture 5, BindTexture 0,
            BindImageTexture 0 6,
            SetVec3 21 ''camera.position'' (), SetVec3 21 ''camera.axis_u'' (),
            SetVec3 21 ''camera.axis_v'' (), SetVec3 21 ''camera.axis_w'' (),
            DispatchCompute 1000 1000 1 ])"
  by (simp add: render_pt_pipeline_def gbuffer_pass_def draw_def bind_inputs_def
      environment_map_loading_def exr_loader_def path_trace_dispatch_def
      RENDER_WIDTH_def RENDER_HEIGHT_def)


section \<open>The decoded buffer is consumed once\<close>

text \<open>
  Claim C2. However many frames run and whenever the background task finishes, the frame
  loop requests at most one image upload and frees at most one buffer. Once the future has
  no shared state it stays so and no frame uploads or frees anything; a run that uploaded
  or freed ends with the future in that state, so no later frame does it again.
\<close>

theorem environment_consumed_at_most_once:
  fixes fut :: "'d exr_result future" and frames :: "('m, 'v) frame_input list"
  assumes "buffers \<noteq> []"
  shows "\<exists>fut' pt' cs.
      main_loop result fb buffers sp ptp frames (fut, pt) = Inr ((fut', pt'), cs)
    \<and> length (filter is_upload cs) \<le> 1
    \<and> length (filter is_free cs) \<le> 1
    \<and> (fut = Invalid \<longrightarrow> fut' = Invalid \<and> filter is_upload cs = [] \<and> filter is_free cs = [])
    \<and> (filter is_upload cs \<noteq> [] \<or> filter is_free cs \<noteq> [] \<longrightarrow> fut' = Invalid)"
proof -
  from main_loop_run [OF assms, of result fb sp ptp frames fut pt]
  obtain fut' pt' cs where
    m: "main_loop result fb buffers sp ptp frames (fut, pt) = Inr ((fut', pt'), cs)" and
    u: "length (filter is_upload cs) = (if fut' = Invalid \<and> fut \<noteq> Invalid then 1 else 0)" and
    f: "length (filter is_free cs) = (if fut' = Invalid \<and> fut \<noteq> Invalid then 1 else 0)" and
    i: "fut = Invalid \<longrightarrow> fut' = Invalid"
    by (elim exE conjE) (rule that; assumption)
  have "length (filter is_upload cs) \<le> 1" "length (filter is_free cs) \<le> 1"
    using u f by simp_all
  moreover have "fut = Invalid \<longrightarrow> fut' = Invalid \<and> filter is_upload cs = [] \<and> filter is_free cs = []"
    using u f i by auto
  moreover have "filter is_upload cs \<noteq> [] \<or> filter is_free cs \<noteq> [] \<longrightarrow> fut' = Invalid"
    using u f by (auto split: if_splits)
  ultimately show ?thesis using m by (intro exI conjI)
qed

theorem environment_consumed_at_most_once_witness:
  "[\<lparr> vao = 11, vbo = 12, ebo = 13, count = 6, source_material_index = 0 \<rparr>] \<noteq> []
   \<and> (\<exists>fut' pt' cs.
         main_loop (Some [1 :: real, 0, 0, 1], 1, 1)
           \<lparr> framebuffer = 1, g_position = 2, g_normal = 3, g_material_index = 4 \<rparr>
           [\<lparr> vao = 11, vbo = 12, ebo = 13, count = 6, source_material_index = 0 \<rparr>] 20 21
           [\<lparr> task_finished = False, texture_name = 9,
              uniforms = \<lparr> model = (), view = (), projection = (), camera_position = (),
                           axis_u = (), axis_v = (), axis_w = () \<rparr> \<rparr>,
            \<lparr> task_finished = True, texture_name = 9,
              uniforms = \<lparr> model = (), view = (), projection = (), camera_position = (),
                           axis_u = (), axis_v = (), axis_w = () \<rparr> \<rparr>,
            \<lparr> task_finished = True, texture_name = 10,
              uniforms = \<lparr> model = (), view = (), projection = (), camera_position = (),
                           axis_u = (), axis_v = (), axis_w = () \<rparr> \<rparr>]
           (Pending, \<lparr> materials_texture = 5, environment_map = 0, render_target = 6 \<rparr>)
         = Inr ((fut', pt'), cs :: (real list, unit, unit) call list)
       \<and> length (filter is_upload cs) \<le> 1
       \<and> length (filter is_free cs) \<le> 1)"
proof -
  have some: "[\<lparr> vao = 11, vbo = 12, ebo = 13, count = 6, source_material_index = 0 \<rparr>] \<noteq> []"
    by simp
  from environment_consumed_at_most_once [OF some,
      where result = "(Some [1 :: real, 0, 0, 1], 1, 1)"
        and fb = "\<lparr> framebuffer = 1, g_position = 2, g_normal = 3, g_material_index = 4 \<rparr>"
        and sp = 20 and ptp = 21 and fut = Pending
        and pt = "\<lparr> materials_texture = 5, environment_map = 0, render_target = 6 \<rparr>"
        and frames = "[\<lparr> task_finished = False, texture_name = 9,
              uniforms = \<lparr> model = (), view = (), projection = (), camera_position = (),
                           axis_u = (), axis_v = (), axis_w = () \<rparr> \<rparr>,
            \<lparr> task_finished = True, texture_name = 9,
              uniforms = \<lparr> model = (), view = (), projection = (), camera_position = (),
                           axis_u = (), axis_v = (), axis_w = () \<rparr> \<rparr>,
            \<lparr> task_finished = True, texture_name = 10,
              uniforms = \<lparr> model = (), view = (), projection = (), camera_position = (),
                           axis_u = (), axis_v = (), axis_w = () \<rparr> \<rparr>]"]
  obtain fut' pt' and cs :: "(real list, unit, unit) call list" where
    "main_loop (Some [1 :: real, 0, 0, 1], 1, 1)
           \<lparr> framebuffer = 1, g_position = 2, g_normal = 3, g_material_index = 4 \<rparr>
           [\<lparr> vao = 11, vbo = 12, ebo = 13, count = 6, source_material_index = 0 \<rparr>] 20 21
           [\<lparr> task_finished = False, texture_name = 9,
              uniforms = \<lparr> model = (), view = (), projection = (), camera_position = (),
                           axis_u = (), axis_v = (), axis_w = () \<rparr> \<rparr>,
            \<lparr> task_finished = True, texture_name = 9,
              uniforms = \<lparr> model = (), view = (), projection = (), camera_position = (),
                           axis_u = (), axis_v = (), axis_w = () \<rparr> \<rparr>,
            \<lparr> task_finished = True, texture_name = 10,
              uniforms = \<lparr> model = (), view = (), projection = (), camera_position = (),
                           axis_u = (), axis_v = (), axis_w = () \<rparr> \<rparr>]
           (Pending, \<lparr> materials_texture = 5, environment_map = 0, render_target = 6 \<rparr>)
         = Inr ((fut', pt'), cs)"
     "length (filter is_upload cs) \<le> 1"
     "length (filter is_free cs) \<le> 1"
    by (elim exE conjE) (rule that; assumption)
  then have "\<exists>fut' pt' cs.
         main_loop (Some [1 :: real, 0, 0, 1], 1, 1)
           \<lparr> framebuffer = 1, g_position = 2, g_normal = 3, g_material_index = 4 \<rparr>
           [\<lparr> vao = 11, vbo = 12, ebo = 13, count = 6, source_material_index = 0 \<rparr>] 20 21
           [\<lparr> task_finished = False, texture_name = 9,
              uniforms = \<lparr> model = (), view = (), projection = (), camera_position = (),
                           axis_u = (), axis_v = (), axis_w = () \<rparr> \<rparr>,
            \<lparr> task_finished = True, texture_name = 9,
              uniforms = \<lparr> model = (), view = (), projection = (), camera_position = (),
                           axis_u = (), axis_v = (), axis_w = () \<rparr> \<rparr>,
            \<lparr> task_finished = True, texture_name = 10,
              uniforms = \<lparr> model = (), view = (), projection = (), camera_position = (),
                           axis_u = (), axis_v = (), axis_w = () \<rparr> \<rparr>]
           (Pending, \<lparr> materials_texture = 5, environment_map = 0, render_target = 6 \<rparr>)
         = Inr ((fut', pt'), cs :: (real list, unit, unit) call list)
       \<and> length (filter is_upload cs) \<le> 1
       \<and> length (filter is_free cs) \<le> 1"
    by (intro exI conjI)
  with some show ?thesis by (intro conjI)
qed


section \<open>An empty submesh list\<close>

text \<open>
  Claim C5 at the empty list of buffer pairs: the G-buffer pass reads \<open>buffers[0]\<close> of
  an empty vector before its loop, so the pass, the frame and the loop's first iteration
  end in undefined behaviour instead of an empty frame.
\<close>

theorem empty_buffers_read_out_of_range:
  "gbuffer_pass camera fb [] shader_program = Inl OutOfRange
   \<and> render_pt_pipeline camera name future fb [] shader_program path_tracer_program pt
       = Inl OutOfRange
   \<and> main_loop result fb [] shader_program path_tracer_program (frame # frames) state
       = Inl OutOfRange"
  by (simp add: gbuffer_pass_def render_pt_pipeline_def)


section \<open>The dispatch grid\<close>

text \<open>
  Claim C7. Every frame of the loop dispatches the compute shader exactly once, on a grid of
  \<open>RENDER_WIDTH\<close> by \<open>RENDER_HEIGHT\<close> by 1 groups. The render target is allocated with the
  same width and height, and both are 1000.
\<close>

theorem dispatch_covers_render_target:
  fixes fut :: "'d exr_result future" and frames :: "('m, 'v) frame_input list"
  assumes "buffers \<noteq> []"
  shows "\<exists>state' cs.
      main_loop result fb buffers sp ptp frames (fut, pt) = Inr (state', cs)
    \<and> filter is_dispatch cs
        = replicate (length frames) (DispatchCompute RENDER_WIDTH RENDER_HEIGHT 1)
    \<and> filter is_upload (snd (allocate_render_target name initial) :: ('d, 'm, 'v) call list)
        = [TexImage2D GL_RGBA32F (int RENDER_WIDTH) (int RENDER_HEIGHT) None]
    \<and> RENDER_WIDTH = 1000 \<and> RENDER_HEIGHT = 1000"
proof -
  from main_loop_run [OF assms, of result fb sp ptp frames fut pt]
  obtain fut' pt' cs where
    "main_loop result fb buffers sp ptp frames (fut, pt) = Inr ((fut', pt'), cs)"
    "filter is_dispatch cs
        = replicate (length frames) (DispatchCompute RENDER_WIDTH RENDER_HEIGHT 1)"
    by (elim exE conjE) (rule that; assumption)
  moreover have "filter is_upload (snd (allocate_render_target name initial) :: ('d, 'm, 'v) call list)
        = [TexImage2D GL_RGBA32F (int RENDER_WIDTH) (int RENDER_HEIGHT) None]"
    by (simp add: allocate_render_target_def)
  moreover have "RENDER_WIDTH = 1000" "RENDER_HEIGHT = 1000"
    by (simp_all add: RENDER_WIDTH_def RENDER_HEIGHT_def)
  ultimately show ?thesis by (intro exI conjI)
qed

theorem dispatch_covers_render_target_witness:
  "[\<lparr> vao = 11, vbo = 12, ebo = 13, count = 6, source_material_index = 0 \<rparr>] \<noteq> []
   \<and> (\<exists>state' cs.
         main_loop (Some [1 :: real, 0, 0, 1], 1, 1)
           \<lparr> framebuffer = 1, g_position = 2, g_normal = 3, g_material_index = 4 \<rparr>
           [\<lparr> vao = 11, vbo = 12, ebo = 13, count = 6, source_material_index = 0 \<rparr>] 20 21
           [\<lparr> task_finished = False, texture_name = 9,
              uniforms = \<lparr> model = (), view = (), projection = (), camera_position = (),
                           axis_u = (), axis_v = (), axis_w = () \<rparr> \<rparr>,
            \<lparr> task_finished = True, texture_name = 9,
              uniforms = \<lparr> model = (), view = (), projection = (), camera_position = (),
                           axis_u = (), axis_v = (), axis_w = () \<rparr> \<rparr>]
           (Pending, \<lparr> materials_texture = 5, environment_map = 0, render_target = 6 \<rparr>)
         = Inr (state', cs :: (real list, unit, unit) call list)
       \<and> filter is_dispatch cs = [DispatchCompute 1000 1000 1, DispatchCompute 1000 1000 1])"
proof -
  have some: "[\<lparr> vao = 11, vbo = 12, ebo = 13, count = 6, source_material_index = 0 \<rparr>] \<noteq> []"
    by simp
  from dispatch_covers_render_target [OF some,
      where result = "(Some [1 :: real, 0, 0, 1], 1, 1)" and name = 6
        and initial = "\<lparr> materials_texture = 5, environment_map = 0, render_target = 0 \<rparr>"
        and fb = "\<lparr> framebuffer = 1, g_position = 2, g_normal = 3, g_material_index = 4 \<rparr>"
        and sp = 20 and ptp = 21 and fut = Pending
        and pt = "\<lparr> materials_texture = 5, environment_map = 0, render_target = 6 \<rparr>"
        and frames = "[\<lparr> task_finished = False, texture_name = 9,
              uniforms = \<lparr> model = (), view = (), projection = (), camera_position = (),
                           axis_u = (), axis_v = (), axis_w = () \<rparr> \<rparr>,
            \<lparr> task_finished = True, texture_name = 9,
              uniforms = \<lparr> model = (), view = (), projection = (), camera_position = (),
                           axis_u = (), axis_v = (), axis_w = () \<rparr> \<rparr>]"]
  obtain state' and cs :: "(real list, unit, unit) call list" where
    run: "main_loop (Some [1 :: real, 0, 0, 1], 1, 1)
           \<lparr> framebuffer = 1, g_position = 2, g_normal = 3, g_material_index = 4 \<rparr>
           [\<lparr> vao = 11, vbo = 12, ebo = 13, count = 6, source_material_index = 0 \<rparr>] 20 21
           [\<lparr> task_finished = False, texture_name = 9,
              uniforms = \<lparr> model = (), view = (), projection = (), camera_position = (),
                           axis_u = (), axis_v = (), axis_w = () \<rparr> \<rparr>,
            \<lparr> task_finished = True, texture_name = 9,
              uniforms = \<lparr> model = (), view = (), projection = (), camera_position = (),
                           axis_u = (), axis_v = (), axis_w = () \<rparr> \<rparr>]
           (Pending, \<lparr> materials_texture = 5, environment_map = 0, render_target = 6 \<rparr>)
         = Inr (state', cs)" and
    grid: "filter is_dispatch cs
        = replicate (length [\<lparr> task_finished = False, texture_name = 9,
              uniforms = \<lparr> model = (), view = (), projection = (), camera_position = (),
                           axis_u = (), axis_v = (), axis_w = () \<rparr> \<rparr>,
            \<lparr> task_finished = True, texture_name = 9,
              uniforms = \<lparr> model = (), view = (), projection = (), camera_position = (),
                           axis_u = (), axis_v = (), axis_w = () \<rparr> \<rparr>])
            (DispatchCompute RENDER_WIDTH RENDER_HEIGHT 1)" and
    w: "RENDER_WIDTH = 1000" and h: "RENDER_HEIGHT = 1000"
    by (elim exE conjE) (rule that; assumption)
  have "filter is_dispatch cs = [DispatchCompute 1000 1000 1, DispatchCompute 1000 1000 1]"
    unfolding grid w h by (simp add: numeral_2_eq_2)
  with run have "\<exists>state' cs.
         main_loop (Some [1 :: real, 0, 0, 1], 1, 1)
           \<lparr> framebuffer = 1, g_position = 2, g_normal = 3, g_material_index = 4 \<rparr>
           [\<lparr> vao = 11, vbo = 12, ebo = 13, count = 6, source_material_index = 0 \<rparr>] 20 21
           [\<lparr> task_finished = False, texture_name = 9,
              uniforms = \<lparr> model = (), view = (), projection = (), camera_position = (),
                           axis_u = (), axis_v = (), axis_w = () \<rparr> \<rparr>,
            \<lparr> task_finished = True, texture_name = 9,
              uniforms = \<lparr> model = (), view = (), projection = (), camera_position = (),
                           axis_u = (), axis_v = (), axis_w = () \<rparr> \<rparr>]
           (Pending, \<lparr> materials_texture = 5, environment_map = 0, render_target = 6 \<rparr>)
         = Inr (state', cs :: (real list, unit, unit) call list)
       \<and> filter is_dispatch cs = [DispatchCompute 1000 1000 1, DispatchCompute 1000 1000 1]"
    by (intro exI conjI)
  with some show ?thesis by (intro conjI)
qed


section \<open>An incomplete framebuffer\<close>

lemma filter_draw_draws:
  "filter is_draw (concat (map (draw sp) bs)) = map (\<lambda>b. DrawElements (count b)) bs"
  by (induction bs) (simp_all add: draw_def)

lemma frame_draws:
  assumes "render_pt_pipeline cam name fut fb buffers sp ptp pt = Inr (fut', pt', cs)"
  shows "filter is_draw cs = map (\<lambda>b. DrawElements (count b)) buffers"
proof -
  from assms obtain drawn loading where
    g: "gbuffer_pass cam fb buffers sp = Inr drawn" and
    l: "environment_map_loading name fut pt = (fut', pt', loading)" and
    cs: "cs = drawn @ bind_inputs fb ptp pt @ loading @ path_trace_dispatch cam ptp pt'"
    by (auto simp: render_pt_pipeline_def split: sum.splits prod.splits)
  from g obtain first :: GLBuffers where
    d: "drawn = [ BindFramebuffer (framebuffer fb), ClearColor, Clear, UseProgram sp,
                  SetMat4 sp ''model'' (model cam), SetMat4 sp ''view'' (view cam),
                  SetMat4 sp ''projection'' (projection cam), BindVertexArray (vao first) ]
                @ concat (map (draw sp) buffers)"
    by (auto simp: gbuffer_pass_def split: list.splits)
  have a: "filter is_draw drawn = map (\<lambda>b. DrawElements (count b)) buffers"
    unfolding d by (simp only: filter_append filter_draw_draws) simp
  have b: "filter is_draw (bind_inputs fb ptp pt) = []"
    by (simp add: bind_inputs_def)
  have c: "filter is_draw loading = []"
    using l by (auto simp: environment_map_loading_def split: future.splits prod.splits)
  have e: "filter is_draw (path_trace_dispatch cam ptp pt') = []"
    by (simp add: path_trace_dispatch_def)
  show ?thesis by (simp add: cs a b c e)
qed

lemma main_loop_draws:
  assumes "main_loop result fb buffers sp ptp frames state = Inr (state', cs)"
  shows "filter is_draw cs
           = concat (replicate (length frames) (map (\<lambda>b. DrawElements (count b)) buffers))"
  using assms
proof (induction frames arbitrary: state cs)
  case Nil
  then show ?case by simp
next
  case (Cons frame frames)
  from Cons.prems obtain f2 p2 c2 where
    r: "render_pt_pipeline (uniforms frame) (texture_name frame)
          (observe result (task_finished frame) (fst state)) fb buffers sp ptp (snd state)
        = Inr (f2, p2, c2)"
    by (auto split: sum.splits)
  from Cons.prems r obtain c3 where
    m: "main_loop result fb buffers sp ptp frames (f2, p2) = Inr (state', c3)" and
    cs: "cs = c2 @ render_ui_pipeline @ c3"
    by (auto split: sum.splits)
  have ui: "filter is_draw (render_ui_pipeline :: ('a, 'b, 'c) call list) = []"
    by (simp add: render_ui_pipeline_def)
  show ?case unfolding cs using frame_draws [OF r] Cons.IH [OF m] by (simp add: ui)
qed





section \<open>Loaded submeshes are well formed\<close>

lemma for_each_invariant:
  assumes step: "\<And>x s s'. P s \<Longrightarrow> body x s = Inr s' \<Longrightarrow> P s'"
    and "P s" and "for_each body xs s = Inr s'"
  shows "P s'"
  using assms(2,3)
proof (induction xs arbitrary: s)
  case Nil
  then show ?case by simp
next
  case (Cons x xs)
  from Cons.prems(2) obtain s1 where b: "body x s = Inr s1" and r: "for_each body xs s1 = Inr s'"
    by (auto split: sum.splits)
  from step [OF Cons.prems(1) b] have "P s1" .
  from Cons.IH [OF this r] show ?case .
qed

lemma find_vertex_None_pair:
  "find_vertex ops v kvs = None \<Longrightarrow> (k, i) \<in> set kvs \<Longrightarrow> \<not> vertex_eq ops k v"
proof (induction kvs)
  case Nil
  then show ?case by simp
next
  case (Cons e kvs)
  obtain k' i' where e: "e = (k', i')" by (cases e)
  from Cons.prems(1) have here: "\<not> vertex_eq ops k' v"
    and rest: "find_vertex ops v kvs = None"
    by (simp_all add: e split: if_splits)
  show ?case
  proof (cases "(k, i) = e")
    case True
    then show ?thesis using here e by simp
  next
    case False
    then have "(k, i) \<in> set kvs" using Cons.prems(2) by simp
    from Cons.IH [OF rest this] show ?thesis .
  qed
qed

lemma find_vertex_None:
  assumes "find_vertex ops v kvs = None" and "k \<in> set (map fst kvs)"
  shows "\<not> vertex_eq ops k v"
proof -
  from assms(2) obtain i where "(k, i) \<in> set kvs" by auto
  from find_vertex_None_pair [OF assms(1) this] show ?thesis .
qed

lemma ran_update_bound:
  assumes "\<forall>i \<in> ran f. i < (n::nat)" and "j < n"
  shows "\<forall>i \<in> ran (f(k \<mapsto> j)). i < n"
  using assms by (auto simp: ran_def split: if_splits)

lemma ran_bound_mono:
  assumes "\<forall>i \<in> ran f. i < (n::nat)" and "n \<le> n'"
  shows "\<forall>i \<in> ran f. i < n'"
  using assms by fastforce

lemma find_vertex_Some:
  "find_vertex ops v kvs = Some i \<Longrightarrow> \<exists>e \<in> set kvs. snd e = i"
  by (induction kvs) (auto split: if_splits)

lemma stored_once_snoc:
  assumes "stored_once ops vs" and "\<And>k. k \<in> set vs \<Longrightarrow> \<not> vertex_eq ops k v"
  shows "stored_once ops (vs @ [v])"
  unfolding stored_once_def
proof (intro allI impI)
  fix i j assume ij: "i < j" and j: "j < length (vs @ [v])"
  show "\<not> vertex_eq ops ((vs @ [v]) ! i) ((vs @ [v]) ! j)"
  proof (cases "j < length vs")
    case True
    then show ?thesis using assms(1) ij by (simp add: stored_once_def nth_append)
  next
    case False
    then have je: "j = length vs" using j by simp
    then have "i < length vs" using ij by simp
    then have "vs ! i \<in> set vs" by simp
    from assms(2) [OF this] show ?thesis using je ij by (simp add: nth_append)
  qed
qed

lemma stored_once_Nil: "stored_once ops []"
  by (simp add: stored_once_def)

lemma corner_step_ok:
  assumes ok: "state_ok ops s" and step: "corner_step ops attrib m fv v s = Inr s'"
  shows "state_ok ops s'"
proof -
  from step obtain index where
    idx: "read (mesh_t.indices m) (offset s + v) = Inr index"
    by (auto simp: corner_step_def split: sum.splits)
  show ?thesis
  proof (cases "index_map s index")
    case (Some ident)
    then have s': "s' = s\<lparr> cur_indices := cur_indices s @ [ident] \<rparr>"
      using step idx by (simp add: corner_step_def)
    have "ident \<in> ran (index_map s)" using Some by (auto simp: ran_def)
    then have "ident < length (cur_vertices s)" using ok by (simp add: state_ok_def)
    then show ?thesis using ok by (simp add: s' state_ok_def)
  next
    case None
    from step idx None obtain vertex where
      vx: "corner_vertex ops attrib m (offset s) fv v index = Inr vertex"
      by (auto simp: corner_step_def split: sum.splits)
    show ?thesis
    proof (cases "find_vertex ops vertex (unique_vertices s)")
      case (Some ident)
      then have s': "s' = s\<lparr> index_map := (index_map s)(index \<mapsto> ident),
                       cur_indices := cur_indices s @ [ident] \<rparr>"
        using step idx None vx by (simp add: corner_step_def)
      from find_vertex_Some [OF Some] ok have lt: "ident < length (cur_vertices s)"
        by (auto simp: state_ok_def)
      have r: "\<forall>i \<in> ran ((index_map s)(index \<mapsto> ident)). i < length (cur_vertices s)"
        using ok lt by (intro ran_update_bound) (simp_all add: state_ok_def)
      show ?thesis using ok lt r unfolding s' state_ok_def by simp
    next
      case N: None
      define ident where "ident = length (cur_vertices s) mod 2 ^ 32"
      have s': "s' = s\<lparr> unique_vertices := unique_vertices s @ [(vertex, ident)],
                           cur_vertices := cur_vertices s @ [vertex],
                           index_map := (index_map s)(index \<mapsto> ident),
                           cur_indices := cur_indices s @ [ident] \<rparr>"
        using step idx None vx N by (simp add: corner_step_def Let_def ident_def)
      have lt: "ident < length (cur_vertices s @ [vertex])"
        unfolding ident_def by (simp add: le_imp_less_Suc)
      have keys: "map fst (unique_vertices s) = cur_vertices s"
        using ok by (simp add: state_ok_def)
      have once: "stored_once ops (cur_vertices s @ [vertex])"
      proof (rule stored_once_snoc)
        show "stored_once ops (cur_vertices s)" using ok by (simp add: state_ok_def)
        fix k assume "k \<in> set (cur_vertices s)"
        then have "k \<in> set (map fst (unique_vertices s))" by (simp only: keys)
        from find_vertex_None [OF N this] show "\<not> vertex_eq ops k vertex" .
      qed
      have r00: "\<forall>i \<in> ran (index_map s). i < length (cur_vertices s)"
        using ok unfolding state_ok_def by (elim conjE)
      have r0: "\<forall>i \<in> ran (index_map s). i < length (cur_vertices s @ [vertex])"
        by (rule ran_bound_mono [OF r00]) simp
      have r: "\<forall>i \<in> ran ((index_map s)(index \<mapsto> ident)). i < length (cur_vertices s @ [vertex])"
        using r0 lt by (rule ran_update_bound)
      have a0: "\<forall>i \<in> set (cur_indices s). i < length (cur_vertices s)"
        using ok unfolding state_ok_def by (elim conjE)
      have a: "\<forall>i \<in> set (cur_indices s'). i < length (cur_vertices s')"
        using a0 lt by (auto simp: s' less_Suc_eq)
      have b: "\<forall>i \<in> ran (index_map s'). i < length (cur_vertices s')"
        using r by (simp add: s')
      have c: "map fst (unique_vertices s') = cur_vertices s'"
        using keys by (simp add: s')
      have d0: "\<forall>e \<in> set (unique_vertices s). snd e < length (cur_vertices s)"
        using ok unfolding state_ok_def by (elim conjE)
      have d: "\<forall>e \<in> set (unique_vertices s'). snd e < length (cur_vertices s')"
        using d0 lt by (auto simp: s' less_Suc_eq)
      have e: "stored_once ops (cur_vertices s')" using once by (simp add: s')
      have f0: "\<forall>m \<in> set (submeshes s). indices_in_range m \<and> stored_once ops (Mesh.vertices m)"
        using ok unfolding state_ok_def by (elim conjE)
      have f: "\<forall>m \<in> set (submeshes s'). indices_in_range m \<and> stored_once ops (Mesh.vertices m)"
        using f0 by (simp add: s')
      from a b c d e f show ?thesis unfolding state_ok_def by (intro conjI)
    qed
  qed
qed

lemma corners_ok:
  assumes "state_ok ops s" and "for_each (corner_step ops attrib m fv) vs s = Inr s'"
  shows "state_ok ops s'"
  using corner_step_ok assms by (rule for_each_invariant [where P = "state_ok ops"])

lemma state_ok_offset: "state_ok ops (s\<lparr> offset := off \<rparr>) = state_ok ops s"
  by (simp add: state_ok_def)

lemma state_ok_flush:
  assumes "state_ok ops s"
  shows "state_ok ops (s\<lparr> offset := off,
                 submeshes := submeshes s @
                   [\<lparr> Mesh.vertices = cur_vertices s, indices = cur_indices s,
                      material = mat \<rparr>],
                 unique_vertices := [], index_map := Map.empty,
                 cur_vertices := [], cur_indices := [] \<rparr>)"
proof -
  have a: "\<forall>i \<in> set (cur_indices s). i < length (cur_vertices s)"
    and e: "stored_once ops (cur_vertices s)"
    and f: "\<forall>m \<in> set (submeshes s). indices_in_range m \<and> stored_once ops (Mesh.vertices m)"
    using assms by (simp_all add: state_ok_def)
  have new: "indices_in_range \<lparr> Mesh.vertices = cur_vertices s, indices = cur_indices s,
                      material = mat \<rparr>"
    using a by (simp add: indices_in_range_def)
  show ?thesis
    using new e f by (simp add: state_ok_def stored_once_Nil)
qed

lemma face_step_ok:
  assumes ok: "state_ok ops s" and step: "face_step ops attrib m f s = Inr s'"
  shows "state_ok ops s'"
proof -
  from step obtain fv where fv: "read (num_face_vertices m) f = Inr fv"
    by (auto simp: face_step_def split: sum.splits)
  from step fv obtain s1 where
    c: "for_each (corner_step ops attrib m fv) (map int [0 ..< nat fv]) s = Inr s1"
    by (auto simp: face_step_def split: sum.splits)
  from step fv c obtain off where off: "checked (offset s1 + fv) = Inr off"
    by (auto simp: face_step_def split: sum.splits)
  from step fv c off obtain ends where ends: "submesh_ends m f = Inr ends"
    by (auto simp: face_step_def split: sum.splits)
  have s': "s' = (if ends then s1\<lparr> offset := off,
                 submeshes := submeshes s1 @
                   [\<lparr> Mesh.vertices = cur_vertices s1, indices = cur_indices s1,
                      material = default_material ops \<rparr>],
                 unique_vertices := [], index_map := Map.empty,
                 cur_vertices := [], cur_indices := [] \<rparr>
               else s1\<lparr> offset := off \<rparr>)"
    using step by (simp add: face_step_def fv c off ends split: if_splits)
  from corners_ok [OF ok c] have ok1: "state_ok ops s1" .
  show ?thesis
  proof (cases ends)
    case True
    then show ?thesis using state_ok_flush [OF ok1] s' by simp
  next
    case False
    then show ?thesis using ok1 s' by (simp add: state_ok_offset)
  qed
qed

lemma faces_ok:
  assumes "state_ok ops s" and "for_each (face_step ops attrib m) fs s = Inr s'"
  shows "state_ok ops s'"
  using face_step_ok assms by (rule for_each_invariant [where P = "state_ok ops"])


lemma shape_step_ok:
  assumes ok: "meshes_ok ops ms" and step: "shape_step ops attrib shape ms = Inr ms'"
  shows "meshes_ok ops ms'"
proof -
  let ?s0 = "\<lparr> cur_vertices = [], cur_indices = [], unique_vertices = [],
                 index_map = Map.empty, offset = 0, submeshes = ms \<rparr>"
  from step obtain s where
    run: "for_each (face_step ops attrib (mesh shape))
            (map int [0 ..< length (num_face_vertices (mesh shape))]) ?s0 = Inr s" and
    ms': "ms' = submeshes s"
    by (auto simp: shape_step_def Let_def split: sum.splits if_splits)
  have "state_ok ops ?s0"
    using ok by (simp add: state_ok_def stored_once_Nil meshes_ok_def)
  from faces_ok [OF this run] show ?thesis
    by (simp add: ms' state_ok_def meshes_ok_def)
qed

lemma load_shapes_ok:
  assumes "load_shapes ops attrib shapes = Inr ms"
  shows "meshes_ok ops ms"
proof -
  from assms have run: "for_each (shape_step ops attrib) shapes [] = Inr ms"
    by (simp add: load_shapes_def split: if_splits)
  have start: "meshes_ok ops []" by (simp add: meshes_ok_def)
  from shape_step_ok start run show ?thesis
    by (rule for_each_invariant [where P = "meshes_ok ops"])
qed

lemma stored_once_sym:
  assumes sym: "\<And>a b. vertex_eq ops a b \<Longrightarrow> vertex_eq ops b a"
    and once: "stored_once ops vs" and "i < length vs" and "j < length vs" and "i \<noteq> j"
  shows "\<not> vertex_eq ops (vs ! i) (vs ! j)"
proof (cases "i < j")
  case True
  then show ?thesis using once assms(4) by (simp add: stored_once_def)
next
  case False
  then have "j < i" using assms(5) by simp
  then have "\<not> vertex_eq ops (vs ! j) (vs ! i)" using once assms(3) by (simp add: stored_once_def)
  then show ?thesis using sym by blast
qed

lemma vertex_eq_sym:
  assumes "\<And>a b. feq ops a b \<Longrightarrow> feq ops b a" and "vertex_eq ops u v"
  shows "vertex_eq ops v u"
proof -
  have v3: "vec3_eq ops q p" if "vec3_eq ops p q" for p q
    using that assms(1) by (cases p; cases q) auto
  have v2: "vec2_eq ops q p" if "vec2_eq ops p q" for p q
    using that assms(1) by (cases p; cases q) auto
  show ?thesis using assms(2) v3 v2 by (auto simp: vertex_eq_def)
qed

lemma quad_loaded:
  "(load_model quad_ops Stat_succeeds (Some quad_reader) ''quad.obj''
      :: (error + (int, unit) Model) \<times> (unit, unit, unit) call list)
   = (Inr \<lparr> meshes =
        [\<lparr> Mesh.vertices =
             [\<lparr> position = Vec3 0 0 0, normal = Vec3 0 0 1, uv = Vec2 0 0 \<rparr>,
              \<lparr> position = Vec3 1 0 0, normal = Vec3 0 0 1, uv = Vec2 0 0 \<rparr>,
              \<lparr> position = Vec3 1 1 0, normal = Vec3 0 0 1, uv = Vec2 0 0 \<rparr>,
              \<lparr> position = Vec3 0 1 0, normal = Vec3 0 0 1, uv = Vec2 0 0 \<rparr>],
            indices = [0, 1, 2, 0, 2, 3],
            material = () \<rparr>] \<rparr>, [])"
  by (simp add: load_model_def filesystem_exists_def quad_reader_def quad_ops_def
      load_shapes_def shape_step_def
      face_step_def corner_step_def corner_vertex_def corner_normal_def corner_uv_def
      read_vec3_def read_def checked_def INT_MAX_def INT_MIN_def submesh_ends_def
      vertex_eq_def Let_def upt_rec)




section \<open>A model that cannot be loaded\<close>




end
